theory Spec2Isabelle
  imports
    Main
    "HOL-Library.Signed_Division"
    "HOL-Library.Char_ord"
    "HOL-Library.List_Lexorder"
    "HOL-Library.Multiset"
    "HOL-Library.Sublist"
begin

section \<open>The weekly e-mail function of Salle des Fetes Mozart\<close>

text \<open>
  The development embeds \<^verbatim>\<open>src/supabase/functions/weekly-email/index.ts\<close>: the request
  handler passed to \<^verbatim>\<open>Deno.serve\<close>, \<^verbatim>\<open>generateWeeklyEmailContent\<close> and \<^verbatim>\<open>sendEmail\<close>.

  Conventions.
  \<^item> A JavaScript string is modelled by the bytes of its UTF-8 encoding (\<^typ>\<open>string\<close>);
    the accented letters and pictographs of the source are written as their bytes.
    The line feed U+000A is the single byte 10 and occurs in no other code point's
    encoding, so replacing line feeds means the same on both representations.
  \<^item> A \<^verbatim>\<open>Date\<close> is its time value, the milliseconds since 1970-01-01T00:00:00Z. The
    runtime's local time zone is taken to be UTC, so that \<^verbatim>\<open>getDay\<close>, \<^verbatim>\<open>getDate\<close> and
    \<^verbatim>\<open>setDate\<close> read the same calendar day that \<^verbatim>\<open>toISOString\<close> prints.
  \<^item> What the handler receives from outside is a field of the record \<open>World\<close>: the
    clock, the two tables of the store (or the way a query on them fails), the locale's
    date formatting and the answer of the e-mail service to each send.
\<close>

subsection \<open>Numbers\<close>

text \<open>\<^verbatim>\<open>a || b\<close> on numbers: \<^verbatim>\<open>b\<close> when \<^verbatim>\<open>a\<close> is falsy, that is zero. The remainder
  \<^verbatim>\<open>a % b\<close> truncates towards zero, which is \<open>smod\<close>.\<close>

definition js_or :: "int \<Rightarrow> int \<Rightarrow> int" where
  "js_or a b = (if a = 0 then b else a)"

subsection \<open>Dates\<close>

type_synonym Date = int

definition msPerDay :: int where
  "msPerDay = 86400000"

definition Day :: "Date \<Rightarrow> int" where
  "Day t = t div msPerDay"

definition TimeWithinDay :: "Date \<Rightarrow> int" where
  "TimeWithinDay t = t mod msPerDay"

text \<open>The proleptic Gregorian date (year, month 1..12, day of the month) of a day number
  counted from 1970-01-01, computed over 400-year eras that start on 1 March.\<close>

definition day_of_era :: "int \<Rightarrow> int" where
  "day_of_era d = (d + 719468) mod 146097"

definition year_of_era :: "int \<Rightarrow> int" where
  "year_of_era d =
     (let doe = day_of_era d
      in (doe - doe div 1460 + doe div 36524 - doe div 146096) div 365)"

definition day_of_year :: "int \<Rightarrow> int" where
  "day_of_year d =
     (let doe = day_of_era d; yoe = year_of_era d
      in doe - (365 * yoe + yoe div 4 - yoe div 100))"

definition civil_from_days :: "int \<Rightarrow> int \<times> int \<times> int" where
  "civil_from_days d =
     (let era = (d + 719468) div 146097;
          y = year_of_era d + era * 400;
          doy = day_of_year d;
          mp = (5 * doy + 2) div 153;
          dd = doy - (153 * mp + 2) div 5 + 1;
          m = (if mp < 10 then mp + 3 else mp - 9)
      in (if m \<le> 2 then y + 1 else y, m, dd))"

definition getDay :: "Date \<Rightarrow> int" where
  \<comment> \<open>the day of the week, 0 for Sunday; 1970-01-01 was a Thursday\<close>
  "getDay t = (Day t + 4) mod 7"

definition getDate :: "Date \<Rightarrow> int" where
  \<comment> \<open>the day of the month\<close>
  "getDate t = (case civil_from_days (Day t) of (y, m, dd) \<Rightarrow> dd)"

definition setDate :: "Date \<Rightarrow> int \<Rightarrow> Date" where
  \<comment> \<open>day \<open>n\<close> counted from the first of the month of \<open>t\<close>, at the time of day of \<open>t\<close>;
      \<open>n\<close> beyond the month's length runs into the following months\<close>
  "setDate t n = (Day t - (getDate t - 1) + (n - 1)) * msPerDay + TimeWithinDay t"

text \<open>\<^verbatim>\<open>toISOString\<close>: \<^verbatim>\<open>YYYY-MM-DDTHH:mm:ss.sssZ\<close>, the year with a sign and six digits
  outside 0..9999.\<close>

primrec digits :: "nat \<Rightarrow> nat \<Rightarrow> string" where
  "digits 0 v = []"
| "digits (Suc w) v = digits w (v div 10) @ [''0123456789'' ! (v mod 10)]"

definition iso_year :: "int \<Rightarrow> string" where
  "iso_year y =
     (if 0 \<le> y \<and> y \<le> 9999 then digits 4 (nat y)
      else (if y < 0 then ''-'' else ''+'') @ digits 6 (nat \<bar>y\<bar>))"

definition iso_date :: "int \<Rightarrow> string" where
  "iso_date d =
     (case civil_from_days d of
        (y, m, dd) \<Rightarrow> iso_year y @ ''-'' @ digits 2 (nat m) @ ''-'' @ digits 2 (nat dd))"

definition iso_time :: "int \<Rightarrow> string" where
  "iso_time ms =
     digits 2 (nat (ms div 3600000)) @ '':'' @ digits 2 (nat (ms div 60000 mod 60)) @ '':''
       @ digits 2 (nat (ms div 1000 mod 60)) @ ''.'' @ digits 3 (nat (ms mod 1000))"

definition toISOString :: "Date \<Rightarrow> string" where
  "toISOString t = iso_date (Day t) @ ''T'' @ iso_time (TimeWithinDay t) @ ''Z''"

definition split_T_first :: "string \<Rightarrow> string" where
  \<comment> \<open>\<^verbatim>\<open>s.split('T')[0]\<close>\<close>
  "split_T_first s = takeWhile (\<lambda>c. c \<noteq> CHR ''T'') s"

subsection \<open>The date range of next week (lines 54-61)\<close>

text \<open>Line 56 is \<^verbatim>\<open>nextMonday.setDate(today.getDate() + (7 - today.getDay() + 1) % 7 || 7)\<close>.
  In JavaScript \<^verbatim>\<open>%\<close> binds stronger than \<^verbatim>\<open>+\<close>, and \<^verbatim>\<open>+\<close> stronger than \<^verbatim>\<open>||\<close>: the left
  operand of \<^verbatim>\<open>||\<close> is the sum of the day of the month and the remainder.\<close>

definition next_week :: "Date \<Rightarrow> Date \<times> Date" where
  "next_week today =
     (let nextMonday = setDate today (js_or (getDate today + (7 - getDay today + 1) smod 7) 7);
          nextSunday = setDate nextMonday (getDate nextMonday + 6)
      in (nextMonday, nextSunday))"

definition iso_day :: "Date \<Rightarrow> string" where
  \<comment> \<open>\<^verbatim>\<open>d.toISOString().split('T')[0]\<close>\<close>
  "iso_day d = split_T_first (toISOString d)"

subsection \<open>The store\<close>

record User =
  email :: string
  nom :: "string option"

record Reservation =
  date_res :: string
  horaire :: string
  nom :: string
  prenom :: string
  "notes" :: "string option"

text \<open>A column the store holds as null is \<open>None\<close>: \<open>notes\<close> is tested for it on line 181.

  A table is its rows in the store's order, or one of the two other answers a query can
  give: no error and null data, or an error with its message.\<close>

datatype 'row table = Rows "'row list" | NullData | Failing string

record PostgrestError =
  message :: string

record 'row QueryResult =
  data :: "'row list option"
  error :: "PostgrestError option"

text \<open>Modelled from the spec: the store is an external service, and what it answers to
  the query that lines 64-69 build (\<^verbatim>\<open>gte\<close>, \<^verbatim>\<open>lte\<close>, \<^verbatim>\<open>order\<close> on \<^verbatim>\<open>date_res\<close>) is not code
  of this repository. Section 6 of the spec gives the contract: the reservations filtered
  by the inclusive date range from start to end, ordered by date ascending. Here these are
  the rows with \<^verbatim>\<open>startDate <= date_res <= endDate\<close>, ordered by \<^verbatim>\<open>date_res\<close> ascending.
  Dates are held in the form \<^verbatim>\<open>YYYY-MM-DD\<close>, which the lexicographic order of strings
  orders as dates; rows of one date keep the table's order. A query can also answer with an
  error, or with neither error nor data.\<close>

definition select_reservations ::
  "Reservation table \<Rightarrow> string \<Rightarrow> string \<Rightarrow> Reservation QueryResult" where
  "select_reservations tbl startDate endDate =
     (case tbl of
        Rows rows \<Rightarrow>
          \<lparr>data = Some (sort_key date_res
                   (filter (\<lambda>r. startDate \<le> date_res r \<and> date_res r \<le> endDate) rows)),
           error = None\<rparr>
      | NullData \<Rightarrow> \<lparr>data = None, error = None\<rparr>
      | Failing msg \<Rightarrow> \<lparr>data = None, error = Some \<lparr>message = msg\<rparr>\<rparr>)"

text \<open>Modelled from the spec: the answer of the store to the query of lines 76-78, by
  section 6 the recipients with no filter: every row of the users table.\<close>

definition select_users :: "User table \<Rightarrow> User QueryResult" where
  "select_users tbl =
     (case tbl of
        Rows rows \<Rightarrow> \<lparr>data = Some rows, error = None\<rparr>
      | NullData \<Rightarrow> \<lparr>data = None, error = None\<rparr>
      | Failing msg \<Rightarrow> \<lparr>data = None, error = Some \<lparr>message = msg\<rparr>\<rparr>)"

subsection \<open>Rendering: generateWeeklyEmailContent (lines 125-199)\<close>

definition dq :: string where
  \<comment> \<open>the double quote\<close>
  "dq = [CHR 0x22]"

text \<open>The fixed text of the template literals, one source line on each line.\<close>

definition page_open :: string where
  "page_open = concat
    [''\<newline>'',
     ''    <html>\<newline>'',
     ''      <head>\<newline>'',
     ''        <meta charset='' @ dq @ ''utf-8'' @ dq @ ''>\<newline>'',
     ''        <style>\<newline>'',
     ''          body { font-family: Arial, sans-serif; line-height: 1.6; color: #333; }\<newline>'',
     ''          .header { background: linear-gradient(135deg, #FFD700, #FFA500); padding: 20px; text-align: center; color: #000; }\<newline>'',
     ''          .content { padding: 20px; }\<newline>'',
     ''          .reservation { background: #f9f9f9; margin: 10px 0; padding: 15px; border-left: 4px solid #FFD700; }\<newline>'',
     ''          .date { font-weight: bold; color: #2c3e50; font-size: 1.1em; }\<newline>'',
     ''          .details { margin-top: 8px; }\<newline>'',
     ''          .horaire { color: #e67e22; font-weight: 600; }\<newline>'',
     ''          .client { color: #27ae60; font-weight: 600; }\<newline>'',
     ''          .notes { color: #7f8c8d; font-style: italic; margin-top: 5px; }\<newline>'',
     ''          .footer { background: #2c3e50; color: white; padding: 15px; text-align: center; margin-top: 20px; }\<newline>'',
     ''        </style>\<newline>'',
     ''      </head>\<newline>'',
     ''      <body>\<newline>'',
     ''        <div class='' @ dq @ ''header'' @ dq @ ''>\<newline>'',
     ''          <h1>'' @ [CHR 0xF0, CHR 0x9F, CHR 0x8E, CHR 0xAD] @ '' Salle des F'' @ [CHR 0xC3, CHR 0xAA] @ ''tes Mozart</h1>\<newline>'',
     ''          <h2>R'' @ [CHR 0xC3, CHR 0xA9] @ ''servations de la semaine prochaine</h2>\<newline>'',
     ''          <p>'']"

definition page_header_close :: string where
  "page_header_close = concat
    [''</p>\<newline>'',
     ''        </div>\<newline>'',
     ''        <div class='' @ dq @ ''content'' @ dq @ ''>\<newline>'',
     ''  '']"

definition no_reservation_block :: string where
  "no_reservation_block = concat
    [''\<newline>'',
     ''      <div class='' @ dq @ ''reservation'' @ dq @ ''>\<newline>'',
     ''        <p style='' @ dq @ ''text-align: center; color: #27ae60; font-size: 1.2em;'' @ dq @ ''>\<newline>'',
     ''          '' @ [CHR 0xF0, CHR 0x9F, CHR 0x8E, CHR 0x89] @ '' Aucune r'' @ [CHR 0xC3, CHR 0xA9] @ ''servation pr'' @ [CHR 0xC3, CHR 0xA9] @ ''vue pour la semaine prochaine\<newline>'',
     ''        </p>\<newline>'',
     ''      </div>\<newline>'',
     ''    '']"

definition entry_open :: string where
  "entry_open = concat
    [''\<newline>'',
     ''        <div class='' @ dq @ ''reservation'' @ dq @ ''>\<newline>'',
     ''          <div class='' @ dq @ ''date'' @ dq @ ''>'' @ [CHR 0xF0, CHR 0x9F, CHR 0x93, CHR 0x85] @ '' '']"

definition entry_after_date :: string where
  "entry_after_date = concat
    [''</div>\<newline>'',
     ''          <div class='' @ dq @ ''details'' @ dq @ ''>\<newline>'',
     ''            <div class='' @ dq @ ''horaire'' @ dq @ ''>'' @ [CHR 0xF0, CHR 0x9F, CHR 0x95, CHR 0x92] @ '' '']"

definition entry_after_horaire :: string where
  "entry_after_horaire = concat
    [''</div>\<newline>'',
     ''            <div class='' @ dq @ ''client'' @ dq @ ''>'' @ [CHR 0xF0, CHR 0x9F, CHR 0x91, CHR 0xA4] @ '' '']"

definition entry_after_client :: string where
  "entry_after_client = concat
    [''</div>\<newline>'',
     ''            '']"

definition notes_open :: string where
  "notes_open = ''<div class='' @ dq @ ''notes'' @ dq @ ''>'' @ [CHR 0xF0, CHR 0x9F, CHR 0x93, CHR 0x9D] @ '' ''"

definition notes_separator :: string where
  "notes_separator = '' '' @ [CHR 0xE2, CHR 0x80, CHR 0xA2] @ '' ''"

definition notes_close :: string where
  "notes_close = ''</div>''"

definition entry_close :: string where
  "entry_close = concat
    [''\<newline>'',
     ''          </div>\<newline>'',
     ''        </div>\<newline>'',
     ''      '']"

definition page_close :: string where
  "page_close = concat
    [''\<newline>'',
     ''        </div>\<newline>'',
     ''        <div class='' @ dq @ ''footer'' @ dq @ ''>\<newline>'',
     ''          <p>Salle des F'' @ [CHR 0xC3, CHR 0xAA] @ ''tes Mozart - Syst'' @ [CHR 0xC3, CHR 0xA8] @ ''me automatique de notification</p>\<newline>'',
     ''          <p>'' @ [CHR 0xF0, CHR 0x9F, CHR 0x93, CHR 0xA7] @ '' E-mail envoy'' @ [CHR 0xC3, CHR 0xA9] @ '' automatiquement chaque dimanche</p>\<newline>'',
     ''        </div>\<newline>'',
     ''      </body>\<newline>'',
     ''    </html>\<newline>'',
     ''  '']"


definition formatHoraire :: "string \<Rightarrow> string" where
  "formatHoraire h =
     (if h = ''nuit'' then ''Soir'' @ [CHR 0xC3, CHR 0xA9] @ ''e (20h30-01h00)''
      else ''Apr'' @ [CHR 0xC3, CHR 0xA8] @ ''s-midi (15h30-20h00)'')"

definition replace_newlines :: "string \<Rightarrow> string" where
  \<comment> \<open>\<^verbatim>\<open>notes.replace(/\n/g, ' \<bullet> ')\<close>\<close>
  "replace_newlines s = concat (map (\<lambda>c. if c = CHR 0x0A then notes_separator else [c]) s)"

definition notes_element :: "string option \<Rightarrow> string" where
  \<comment> \<open>line 181; null and the empty string are falsy\<close>
  "notes_element n =
     (case n of
        None \<Rightarrow> []
      | Some s \<Rightarrow> if s = [] then [] else notes_open @ replace_newlines s @ notes_close)"

definition reservation_entry :: "(string \<Rightarrow> string) \<Rightarrow> Reservation \<Rightarrow> string" where
  \<comment> \<open>the template literal of lines 175-184\<close>
  "reservation_entry formatDate reservation =
     entry_open @ formatDate (date_res reservation)
     @ entry_after_date @ formatHoraire (horaire reservation)
     @ entry_after_horaire @ prenom reservation @ '' '' @ nom reservation
     @ entry_after_client @ notes_element (notes reservation)
     @ entry_close"

text \<open>\<open>formatDate\<close> is \<^verbatim>\<open>new Date(dateStr).toLocaleDateString('fr-FR', ...)\<close>, the
  runtime's locale data; it is a parameter. \<^verbatim>\<open>forEach\<close> with \<^verbatim>\<open>content += ...\<close> is a left
  fold over the reservations.\<close>

definition generateWeeklyEmailContent ::
  "(string \<Rightarrow> string) \<Rightarrow> Reservation list \<Rightarrow> string \<Rightarrow> string \<Rightarrow> string" where
  "generateWeeklyEmailContent formatDate reservations startDate endDate =
     (let content = page_open @ formatDate startDate @ '' - '' @ formatDate endDate
                      @ page_header_close;
          content =
            (if length reservations = 0 then content @ no_reservation_block
             else foldl (\<lambda>content reservation. content @ reservation_entry formatDate reservation)
                    content reservations);
          content = content @ page_close
      in content)"

subsection \<open>Sending: sendEmail (lines 201-231)\<close>

datatype digest = weekly | monthly

datatype settled = fulfilled | rejected string

definition settled_status :: "settled \<Rightarrow> string" where
  \<comment> \<open>the \<^verbatim>\<open>status\<close> of a result of \<^verbatim>\<open>Promise.allSettled\<close>\<close>
  "settled_status r = (case r of fulfilled \<Rightarrow> ''fulfilled'' | rejected reason \<Rightarrow> ''rejected'')"

text \<open>The source logs three lines and leaves the call of the e-mail service as a comment
  (lines 213-230). \<open>service\<close> stands for that call, given the address, the subject and
  the content: \<open>None\<close> when the service accepts the message, \<open>Some statusText\<close> when its
  response is not ok, on which line 228 throws. The function as it stands in the source is
  \<open>sendEmail no_service\<close>. The first 200 characters of any content are plain ASCII text
  of \<open>page_open\<close>, so \<^verbatim>\<open>substring(0, 200)\<close> is \<open>take 200\<close>.\<close>

definition weekly_subject :: string where
  "weekly_subject =
     [CHR 0xF0, CHR 0x9F, CHR 0x93, CHR 0x85] @ '' R'' @ [CHR 0xC3, CHR 0xA9]
     @ ''servations de la semaine prochaine - Salle Mozart''"

definition monthly_subject :: string where
  "monthly_subject =
     [CHR 0xF0, CHR 0x9F, CHR 0x93, CHR 0x85] @ '' R'' @ [CHR 0xC3, CHR 0xA9]
     @ ''servations du mois prochain - Salle Mozart''"

definition sendEmail ::
  "(string \<Rightarrow> string \<Rightarrow> string \<Rightarrow> string option) \<Rightarrow> User \<Rightarrow> string \<Rightarrow> digest
     \<Rightarrow> string list \<times> settled" where
  "sendEmail service user content type =
     (let subject = (if type = weekly then weekly_subject else monthly_subject);
          logs = [''Envoi e-mail '' @ [CHR 0xC3, CHR 0xA0] @ '' '' @ email user @ '':'',
                  ''Sujet: '' @ subject,
                  ''Contenu: '' @ take 200 content @ ''...'']
      in (logs,
          case service (email user) subject content of
            None \<Rightarrow> fulfilled
          | Some statusText \<Rightarrow> rejected (''Erreur envoi e-mail: '' @ statusText)))"

definition no_service :: "string \<Rightarrow> string \<Rightarrow> string \<Rightarrow> string option" where
  "no_service address subject content = None"

subsection \<open>The handler (lines 38-123)\<close>

record Request =
  "method" :: string

datatype json = JString string | JNumber int | JObject "(string \<times> json) list"

text \<open>A response body is the value given to \<^verbatim>\<open>JSON.stringify\<close>, or \<open>None\<close> for the
  \<^verbatim>\<open>null\<close> body; a response built without a status has status 200.\<close>

record Response =
  status :: int
  headers :: "(string \<times> string) list"
  body :: "json option"

definition corsHeaders :: "(string \<times> string) list" where
  "corsHeaders =
     [(''Access-Control-Allow-Origin'', ''*''),
      (''Access-Control-Allow-Methods'', ''GET, POST, PUT, DELETE, OPTIONS''),
      (''Access-Control-Allow-Headers'', ''Content-Type, Authorization'')]"

definition json_headers :: "(string \<times> string) list" where
  \<comment> \<open>\<^verbatim>\<open>{ ...corsHeaders, 'Content-Type': 'application/json' }\<close>\<close>
  "json_headers = corsHeaders @ [(''Content-Type'', ''application/json'')]"

text \<open>What a run receives from outside. \<open>email_service w i\<close> is the e-mail service as it
  answers the \<open>i\<close>-th send of the run.\<close>

record World =
  now :: Date
  reservations_table :: "Reservation table"
  users_table :: "User table"
  toLocaleDateString :: "string \<Rightarrow> string"
  email_service :: "nat \<Rightarrow> string \<Rightarrow> string \<Rightarrow> string \<Rightarrow> string option"

text \<open>What a run does: the response it returns, the document it rendered if
  \<open>generateWeeklyEmailContent\<close> was called, the calls of \<open>sendEmail\<close> in order, each with
  the way its promise settled, and the lines written to the console.\<close>

record Run =
  response :: Response
  rendered :: "string option"
  attempts :: "(User \<times> settled) list"
  console :: "string list"

definition no_users_found :: Run where
  \<comment> \<open>lines 85-88\<close>
  "no_users_found =
     \<lparr>response =
        \<lparr>status = 200, headers = json_headers,
         body = Some (JObject
           [(''message'', JString (''Aucun utilisateur trouv'' @ [CHR 0xC3, CHR 0xA9]))])\<rparr>,
      rendered = None, attempts = [], console = []\<rparr>"

text \<open>The body of \<^verbatim>\<open>try\<close>: \<open>Inl\<close> is a thrown \<^verbatim>\<open>Error\<close> with its message, \<open>Inr\<close> a
  returned response. Nothing is rendered, sent or logged before either \<^verbatim>\<open>throw\<close>.\<close>

definition try_block :: "World \<Rightarrow> string + Run" where
  "try_block w =
     (let today = now w;
          (nextMonday, nextSunday) = next_week today;
          startDate = iso_day nextMonday;
          endDate = iso_day nextSunday;
          reservations = select_reservations (reservations_table w) startDate endDate
      in case error reservations of
           Some reservationsError \<Rightarrow>
             Inl (''Erreur r'' @ [CHR 0xC3, CHR 0xA9] @ ''cup'' @ [CHR 0xC3, CHR 0xA9]
                  @ ''ration r'' @ [CHR 0xC3, CHR 0xA9] @ ''servations: ''
                  @ message reservationsError)
         | None \<Rightarrow>
             (let users = select_users (users_table w)
              in case error users of
                   Some usersError \<Rightarrow>
                     Inl (''Erreur r'' @ [CHR 0xC3, CHR 0xA9] @ ''cup'' @ [CHR 0xC3, CHR 0xA9]
                          @ ''ration utilisateurs: '' @ message usersError)
                 | None \<Rightarrow>
                     (case data users of
                        None \<Rightarrow> Inr no_users_found
                      | Some us \<Rightarrow>
                          if length us = 0 then Inr no_users_found
                          else
                            (let emailContent =
                                   generateWeeklyEmailContent (toLocaleDateString w)
                                     (case data reservations of None \<Rightarrow> [] | Some rs \<Rightarrow> rs)
                                     startDate endDate;
                                 emailPromises =
                                   map (\<lambda>(i, user).
                                          sendEmail (email_service w i) user emailContent weekly)
                                     (enumerate 0 us);
                                 results = map snd emailPromises;
                                 successCount =
                                   length (filter (\<lambda>r. settled_status r = ''fulfilled'') results);
                                 failureCount =
                                   length (filter (\<lambda>r. settled_status r = ''rejected'') results)
                             in Inr
                                  \<lparr>response =
                                     \<lparr>status = 200, headers = json_headers,
                                      body = Some (JObject
                                        [(''message'',
                                          JString (''E-mails hebdomadaires envoy''
                                                   @ [CHR 0xC3, CHR 0xA9] @ ''s'')),
                                         (''success'', JNumber (int successCount)),
                                         (''failures'', JNumber (int failureCount)),
                                         (''reservations'',
                                          JNumber (js_or
                                            (case data reservations of
                                               None \<Rightarrow> 0
                                             | Some rs \<Rightarrow> int (length rs)) 0))])\<rparr>,
                                   rendered = Some emailContent,
                                   attempts = zip us results,
                                   console = concat (map fst emailPromises)\<rparr>))))"

definition handler :: "World \<Rightarrow> Request \<Rightarrow> Run" where
  "handler w req =
     (if method req = ''OPTIONS''
      then \<lparr>response = \<lparr>status = 200, headers = corsHeaders, body = None\<rparr>,
            rendered = None, attempts = [], console = []\<rparr>
      else
        (case try_block w of
           Inr run \<Rightarrow> run
         | Inl msg \<Rightarrow>
             \<lparr>response =
                \<lparr>status = 500, headers = json_headers,
                 body = Some (JObject [(''error'', JString msg)])\<rparr>,
              rendered = None, attempts = [],
              console = [''Erreur fonction weekly-email: Error: '' @ msg]\<rparr>))"

subsection \<open>Notions used to state the properties\<close>

definition fetch_ok :: "'row table \<Rightarrow> bool" where
  \<comment> \<open>a query on the table returns no error\<close>
  "fetch_ok tbl = (case tbl of Failing msg \<Rightarrow> False | NullData \<Rightarrow> True | Rows rows \<Rightarrow> True)"

definition startDate_of :: "Date \<Rightarrow> string" where
  "startDate_of today = iso_day (fst (next_week today))"

definition endDate_of :: "Date \<Rightarrow> string" where
  "endDate_of today = iso_day (snd (next_week today))"

definition queried_reservations :: "World \<Rightarrow> Reservation list" where
  \<comment> \<open>\<^verbatim>\<open>reservations || []\<close> of line 92\<close>
  "queried_reservations w =
     (case data (select_reservations (reservations_table w)
                   (startDate_of (now w)) (endDate_of (now w))) of
        None \<Rightarrow> []
      | Some rs \<Rightarrow> rs)"

definition digest :: "World \<Rightarrow> string" where
  \<comment> \<open>\<^verbatim>\<open>emailContent\<close> of line 92\<close>
  "digest w =
     generateWeeklyEmailContent (toLocaleDateString w) (queried_reservations w)
       (startDate_of (now w)) (endDate_of (now w))"

definition settlements :: "World \<Rightarrow> User list \<Rightarrow> settled list" where
  \<comment> \<open>\<^verbatim>\<open>results\<close> of line 96\<close>
  "settlements w us =
     map (\<lambda>(i, user). snd (sendEmail (email_service w i) user (digest w) weekly))
       (enumerate 0 us)"

definition json_member :: "string \<Rightarrow> json option \<Rightarrow> json option" where
  \<comment> \<open>the member of a body that is a JSON object\<close>
  "json_member k b = (case b of Some (JObject kvs) \<Rightarrow> map_of kvs k | _ \<Rightarrow> None)"

text \<open>The lines of a text, and a list of texts joined by a separator: the words in which
  replacing every line break by a separator is specified.\<close>

fun lines_of :: "string \<Rightarrow> string list" where
  "lines_of [] = [[]]"
| "lines_of (c # cs) =
     (if c = CHR 0x0A then [] # lines_of cs
      else (case lines_of cs of l # ls \<Rightarrow> (c # l) # ls | [] \<Rightarrow> [[c]]))"

fun join_with :: "string \<Rightarrow> string list \<Rightarrow> string" where
  "join_with sep [] = []"
| "join_with sep [l] = l"
| "join_with sep (l # ls) = l @ sep @ join_with sep ls"

subsection \<open>Example runs\<close>

definition monday_morning :: Date where
  \<comment> \<open>2026-11-02T06:00:00.000Z, a Monday\<close>
  "monday_morning = 1793599200000"

definition wednesday_morning :: Date where
  \<comment> \<open>2026-11-04T06:00:00.000Z\<close>
  "wednesday_morning = 1793772000000"

definition anniversaire :: Reservation where
  "anniversaire =
     \<lparr>date_res = ''2026-11-10'', horaire = ''nuit'', nom = ''Trabelsi'', prenom = ''Amine'',
      notes = Some (''gateau'' @ [CHR 0x0A] @ ''80 invites'')\<rparr>"

definition mariage :: Reservation where
  "mariage =
     \<lparr>date_res = ''2026-11-14'', horaire = ''apres-midi'', nom = ''Ben Salah'',
      prenom = ''Ines'', notes = None\<rparr>"

definition plus_tard :: Reservation where
  "plus_tard =
     \<lparr>date_res = ''2026-11-16'', horaire = ''nuit'', nom = ''Gharbi'', prenom = ''Sami'',
      notes = Some []\<rparr>"

definition gerant :: User where
  "gerant = \<lparr>email = ''gerant@example.org'', nom = Some ''Mozart''\<rparr>"

definition assistant :: User where
  "assistant = \<lparr>email = ''assistant@example.org'', nom = None\<rparr>"

definition second_send_refused :: "nat \<Rightarrow> string \<Rightarrow> string \<Rightarrow> string \<Rightarrow> string option" where
  "second_send_refused i address subject content =
     (if i = 1 then Some ''Bad Gateway'' else None)"

definition example_world :: World where
  "example_world =
     \<lparr>now = wednesday_morning,
      reservations_table = Rows [mariage, plus_tard, anniversaire],
      users_table = Rows [gerant, assistant],
      toLocaleDateString = (\<lambda>dateStr. dateStr),
      email_service = second_send_refused\<rparr>"

definition post :: Request where
  "post = \<lparr>method = ''POST''\<rparr>"

definition preflight :: Request where
  "preflight = \<lparr>method = ''OPTIONS''\<rparr>"

section \<open>Properties\<close>

subsection \<open>The date range\<close>

text \<open>The day of the year, counted from 1 March, is never negative: the year of the era
  is not overestimated. Hence the day of the month is at least 1.\<close>

lemma year_of_era_le:
  fixes doe :: int
  assumes d0: "0 \<le> doe" and d1: "doe < 146097"
  defines "a \<equiv> doe div 1460" and "b \<equiv> doe div 36524" and "c \<equiv> doe div 146096"
  defines "N \<equiv> doe - a + b - c"
  defines "yoe \<equiv> N div 365"
  shows "365 * yoe + yoe div 4 - yoe div 100 \<le> doe"
proof (cases "doe = 146096")
  case True
  then show ?thesis
    by (simp add: yoe_def N_def a_def b_def c_def)
next
  case False
  with d1 have d2: "doe < 146096" by simp
  have c0: "c = 0" using d0 d2 by (simp add: c_def)
  have a1: "1460 * a \<le> doe" and a2: "doe < 1460 * a + 1460"
    unfolding a_def by presburger+
  have b1: "36524 * b \<le> doe" and b2: "doe < 36524 * b + 36524"
    unfolding b_def by presburger+
  have b3: "0 \<le> b" "b \<le> 3" using b1 b2 d0 d2 by linarith+
  have ba: "b \<le> a" using a2 b1 b3 by linarith
  have Nle: "N \<le> doe" using ba c0 by (simp add: N_def)
  have y1: "365 * yoe \<le> N" and y2: "N < 365 * yoe + 365"
    unfolding yoe_def by presburger+
  define p where "p = yoe div 4"
  define q where "q = yoe div 100"
  have p1: "4 * p \<le> yoe" unfolding p_def by presburger
  have q2: "yoe < 100 * q + 100" unfolding q_def by presburger
  have pa: "p \<le> a" using p1 y1 Nle a2 by linarith
  have "1460 * N = 1460 * doe - 1460 * a + 1460 * b" using c0 by (simp add: N_def)
  with a1 b1 have "1460 * N \<ge> 53289976 * b" by linarith
  with b3 have Nb: "36500 * b \<le> N" by linarith
  have qb: "b \<le> q" using Nb y2 q2 by linarith
  have "doe = N + a - b" using c0 by (simp add: N_def)
  with y1 pa qb have "365 * yoe + p - q \<le> doe" by linarith
  then show ?thesis by (simp add: p_def q_def)
qed

lemma day_of_year_nonneg: "0 \<le> day_of_year d"
proof -
  have "0 \<le> day_of_era d" "day_of_era d < 146097"
    by (simp_all add: day_of_era_def)
  from year_of_era_le [OF this] show ?thesis
    by (simp add: day_of_year_def year_of_era_def Let_def)
qed

lemma getDate_pos: "1 \<le> getDate t"
proof -
  define doy where "doy = day_of_year (Day t)"
  define mp where "mp = (5 * doy + 2) div 153"
  have "0 \<le> doy" by (simp add: doy_def day_of_year_nonneg)
  have "153 * (x div 153) \<le> x" for x :: int by presburger
  then have "153 * mp \<le> 5 * doy + 2" unfolding mp_def .
  then have "(153 * mp + 2) div 5 \<le> (5 * doy + 4) div 5"
    by (intro zdiv_mono1) simp_all
  also have "\<dots> = doy" by presburger
  finally have "(153 * mp + 2) div 5 \<le> doy" .
  then show ?thesis
    by (simp add: getDate_def civil_from_days_def Let_def doy_def mp_def)
qed

lemma getDay_range: "0 \<le> getDay t" "getDay t \<le> 6"
  by (simp_all add: getDay_def)

lemma Day_TimeWithinDay: "Day t * msPerDay + TimeWithinDay t = t"
  by (simp add: Day_def TimeWithinDay_def)

lemma setDate_shift: "setDate t (getDate t + k) = t + k * msPerDay"
proof -
  have "setDate t (getDate t + k) = (Day t + k) * msPerDay + TimeWithinDay t"
    by (simp add: setDate_def)
  also have "\<dots> = (Day t * msPerDay + TimeWithinDay t) + k * msPerDay"
    by (simp add: algebra_simps)
  finally show ?thesis by (simp only: Day_TimeWithinDay)
qed

lemma Day_shift: "Day (t + k * msPerDay) = Day t + k"
  by (simp add: Day_def msPerDay_def)

lemma TimeWithinDay_shift: "TimeWithinDay (t + k * msPerDay) = TimeWithinDay t"
  by (simp add: TimeWithinDay_def msPerDay_def)

lemma offset_smod:
  "0 \<le> g \<Longrightarrow> g \<le> 6 \<Longrightarrow> (7 - g + 1) smod 7 = (8 - g) mod (7::int)"
  by (simp add: signed_modulo_int_def sgn_if)

text \<open>The sum given to \<open>js_or\<close> is at least 1, so its alternative 7 is never taken.\<close>

lemma next_week_eq:
  "next_week today =
     (today + ((8 - getDay today) mod 7) * msPerDay,
      today + ((8 - getDay today) mod 7) * msPerDay + 6 * msPerDay)"
proof -
  define k where "k = (8 - getDay today) mod 7"
  have k: "(7 - getDay today + 1) smod 7 = k"
    unfolding k_def using getDay_range [of today] by (rule offset_smod)
  have "0 \<le> k" by (simp add: k_def)
  with getDate_pos [of today] have "getDate today + k \<noteq> 0" by linarith
  then have "js_or (getDate today + k) 7 = getDate today + k"
    by (simp add: js_or_def)
  then show ?thesis
    unfolding next_week_def k Let_def by (simp only: setDate_shift k_def)
qed

lemma getDay_next_week: "getDay (fst (next_week today)) = 1" "getDay (snd (next_week today)) = 0"
  unfolding next_week_eq fst_conv snd_conv getDay_def Day_shift by presburger+

lemma next_week_span: "snd (next_week today) = fst (next_week today) + 6 * msPerDay"
  by (simp add: next_week_eq)

lemma next_week_on_Monday: "getDay today = 1 \<Longrightarrow> fst (next_week today) = today"
  by (simp add: next_week_eq)

lemma next_week_other_day:
  assumes "getDay today \<noteq> 1"
  shows "Day today < Day (fst (next_week today))"
    and "Day (fst (next_week today)) \<le> Day today + 6"
  using assms getDay_range [of today] unfolding next_week_eq fst_conv Day_shift by presburger+

lemma digits_chars: "set (digits w v) \<subseteq> set ''0123456789''"
proof (induction w arbitrary: v)
  case 0
  show ?case by simp
next
  case (Suc w)
  have "v mod 10 < length ''0123456789''" by simp
  then have "''0123456789'' ! (v mod 10) \<in> set ''0123456789''" by (rule nth_mem)
  with Suc [of "v div 10"] show ?case by simp
qed

lemma T_not_digit: "CHR ''T'' \<notin> set (digits w v)"
  using digits_chars [of w v] by auto

lemma T_not_in_iso_date: "CHR ''T'' \<notin> set (iso_date d)"
  by (simp add: iso_date_def iso_year_def T_not_digit split: prod.split)

lemma iso_day_eq: "iso_day t = iso_date (Day t)"
proof -
  have "takeWhile (\<lambda>c. c \<noteq> CHR ''T'') (iso_date (Day t) @ CHR ''T'' # rest) = iso_date (Day t)"
    for rest
    using T_not_in_iso_date [of "Day t"] by (auto simp: takeWhile_tail)
  then show ?thesis
    by (simp add: iso_day_def split_T_first_def toISOString_def)
qed

lemma digits_2: "digits 2 v = [''0123456789'' ! (v div 10 mod 10), ''0123456789'' ! (v mod 10)]"
  by (simp add: numeral_2_eq_2)

lemma digits_4:
  "digits 4 v =
     [''0123456789'' ! (v div 10 div 10 div 10 mod 10), ''0123456789'' ! (v div 10 div 10 mod 10),
      ''0123456789'' ! (v div 10 mod 10), ''0123456789'' ! (v mod 10)]"
proof -
  have four: "(4::nat) = Suc (Suc (Suc (Suc 0)))" by simp
  show ?thesis
    unfolding four by (simp only: digits.simps append_Nil append_Cons)
qed

lemma Day_monday_morning: "Day monday_morning = 20759"
  by (simp add: Day_def monday_morning_def msPerDay_def)

lemma civil_20759: "civil_from_days 20759 = (2026, 11, 2)"
  by (simp add: civil_from_days_def year_of_era_def day_of_era_def day_of_year_def Let_def)

lemma civil_20765: "civil_from_days 20765 = (2026, 11, 8)"
  by (simp add: civil_from_days_def year_of_era_def day_of_era_def day_of_year_def Let_def)

lemma iso_date_20759: "iso_date 20759 = ''2026-11-02''"
  by (simp add: iso_date_def civil_20759 iso_year_def digits_2 digits_4)

lemma iso_date_20765: "iso_date 20765 = ''2026-11-08''"
  by (simp add: iso_date_def civil_20765 iso_year_def digits_2 digits_4)

lemma getDay_monday_morning: "getDay monday_morning = 1"
  by (simp add: getDay_def Day_monday_morning)

text \<open>
  C1. The claim: for every invocation date the window starts on the first Monday strictly
  after it, so that a run on a Monday starts the window 7 days later, and ends 6 days after
  its start, on a Sunday.

  The code does not meet it on a Monday. In
  \<^verbatim>\<open>today.getDate() + (7 - today.getDay() + 1) % 7 || 7\<close> the operator \<^verbatim>\<open>||\<close> binds weaker
  than \<^verbatim>\<open>+\<close>, so the alternative 7 stands for the whole sum, which is never zero
  (\<open>next_week_eq\<close>). A run on Monday 2026-11-02 queries the week from that same Monday to
  Sunday 2026-11-08, not the week from 2026-11-09. On the six other days the start is the
  first Monday strictly after the run (\<open>next_week_other_day\<close>), and on every day the
  range runs from a Monday to the Sunday 6 days later (\<open>getDay_next_week\<close>,
  \<open>next_week_span\<close>).
\<close>

theorem monday_run_starts_today:
  "getDay monday_morning = 1
   \<and> fst (next_week monday_morning) = monday_morning
   \<and> startDate_of monday_morning = ''2026-11-02''
   \<and> endDate_of monday_morning = ''2026-11-08''"
proof -
  have "fst (next_week monday_morning) = monday_morning"
    using getDay_monday_morning by (rule next_week_on_Monday)
  moreover have "Day (snd (next_week monday_morning)) = 20765"
    by (simp add: next_week_span \<open>fst (next_week monday_morning) = monday_morning\<close>
        Day_shift Day_monday_morning)
  ultimately show ?thesis
    by (simp add: getDay_monday_morning startDate_of_def endDate_of_def iso_day_eq
        Day_monday_morning iso_date_20759 iso_date_20765)
qed

subsection \<open>The queries\<close>

lemma error_select_reservations:
  "error (select_reservations tbl s e) =
     (case tbl of Failing msg \<Rightarrow> Some \<lparr>message = msg\<rparr> | NullData \<Rightarrow> None | Rows rows \<Rightarrow> None)"
  by (simp add: select_reservations_def split: table.split)

lemma error_select_users:
  "error (select_users tbl) =
     (case tbl of Failing msg \<Rightarrow> Some \<lparr>message = msg\<rparr> | NullData \<Rightarrow> None | Rows rows \<Rightarrow> None)"
  by (simp add: select_users_def split: table.split)

lemma data_select_users:
  "data (select_users tbl) = (case tbl of Rows rows \<Rightarrow> Some rows | NullData \<Rightarrow> None | Failing msg \<Rightarrow> None)"
  by (simp add: select_users_def split: table.split)

lemma data_select_reservations_Rows:
  "data (select_reservations (Rows rows) s e) =
     Some (sort_key date_res (filter (\<lambda>r. s \<le> date_res r \<and> date_res r \<le> e) rows))"
  by (simp add: select_reservations_def)


subsection \<open>The body of try\<close>

lemma try_block_reservations_fail:
  assumes "reservations_table w = Failing msg"
  shows "try_block w =
     Inl (''Erreur r'' @ [CHR 0xC3, CHR 0xA9] @ ''cup'' @ [CHR 0xC3, CHR 0xA9]
          @ ''ration r'' @ [CHR 0xC3, CHR 0xA9] @ ''servations: '' @ msg)"
  using assms
  by (simp add: try_block_def Let_def case_prod_beta error_select_reservations)

lemma try_block_users_fail:
  assumes "fetch_ok (reservations_table w)" and "users_table w = Failing msg"
  shows "try_block w =
     Inl (''Erreur r'' @ [CHR 0xC3, CHR 0xA9] @ ''cup'' @ [CHR 0xC3, CHR 0xA9]
          @ ''ration utilisateurs: '' @ msg)"
  using assms
  by (simp add: try_block_def Let_def case_prod_beta error_select_reservations
      error_select_users fetch_ok_def split: table.splits)

lemma try_block_no_users:
  assumes "fetch_ok (reservations_table w)"
    and "users_table w = Rows [] \<or> users_table w = NullData"
  shows "try_block w = Inr no_users_found"
  using assms
  by (auto simp add: try_block_def Let_def case_prod_beta error_select_reservations
      error_select_users data_select_users fetch_ok_def split: table.splits)

lemma reservations_count:
  "js_or (case data (select_reservations (reservations_table w) (startDate_of (now w))
                       (endDate_of (now w))) of
            None \<Rightarrow> 0
          | Some rs \<Rightarrow> int (length rs)) 0
   = int (length (queried_reservations w))"
  by (simp add: js_or_def queried_reservations_def split: option.split)

lemma try_block_dispatch:
  assumes "fetch_ok (reservations_table w)" and "users_table w = Rows us" and "us \<noteq> []"
  shows "try_block w =
     Inr \<lparr>response =
            \<lparr>status = 200, headers = json_headers,
             body = Some (JObject
               [(''message'',
                 JString (''E-mails hebdomadaires envoy'' @ [CHR 0xC3, CHR 0xA9] @ ''s'')),
                (''success'',
                 JNumber (int (length (filter (\<lambda>r. settled_status r = ''fulfilled'')
                                         (settlements w us))))),
                (''failures'',
                 JNumber (int (length (filter (\<lambda>r. settled_status r = ''rejected'')
                                         (settlements w us))))),
                (''reservations'', JNumber (int (length (queried_reservations w))))])\<rparr>,
          rendered = Some (digest w),
          attempts = zip us (settlements w us),
          console =
            concat (map (\<lambda>(i, user). fst (sendEmail (email_service w i) user (digest w) weekly))
                      (enumerate 0 us))\<rparr>"
proof -
  have e1: "error (select_reservations (reservations_table w) s e) = None" for s e
    using assms(1) by (simp add: error_select_reservations fetch_ok_def split: table.splits)
  have e2: "error (select_users (users_table w)) = None"
    and d2: "data (select_users (users_table w)) = Some us"
    using assms(2) by (simp_all add: error_select_users data_select_users)
  show ?thesis
    unfolding try_block_def Let_def case_prod_beta e1 e2 d2
    using assms(3) reservations_count [of w]
    by (simp add: startDate_of_def endDate_of_def digest_def queried_reservations_def
        settlements_def comp_def split_def)
qed


subsection \<open>The handler\<close>

lemma handler_preflight:
  assumes "method req = ''OPTIONS''"
  shows "handler w req =
     \<lparr>response = \<lparr>status = 200, headers = corsHeaders, body = None\<rparr>,
      rendered = None, attempts = [], console = []\<rparr>"
  using assms by (simp add: handler_def)

lemma handler_thrown:
  assumes "method req \<noteq> ''OPTIONS''" and "try_block w = Inl msg"
  shows "handler w req =
     \<lparr>response =
        \<lparr>status = 500, headers = json_headers,
         body = Some (JObject [(''error'', JString msg)])\<rparr>,
      rendered = None, attempts = [],
      console = [''Erreur fonction weekly-email: Error: '' @ msg]\<rparr>"
  using assms by (simp add: handler_def)

lemma handler_returned:
  assumes "method req \<noteq> ''OPTIONS''" and "try_block w = Inr run"
  shows "handler w req = run"
  using assms by (simp add: handler_def)

lemma not_fetch_ok: "\<not> fetch_ok tbl \<Longrightarrow> \<exists>msg. tbl = Failing msg"
  by (cases tbl) (simp_all add: fetch_ok_def)

lemma fetch_failure_thrown:
  assumes "\<not> (fetch_ok (reservations_table w) \<and> fetch_ok (users_table w))"
  shows "\<exists>msg. try_block w = Inl msg"
proof (cases "fetch_ok (reservations_table w)")
  case False
  then obtain msg where "reservations_table w = Failing msg"
    using not_fetch_ok by blast
  then show ?thesis
    using try_block_reservations_fail by blast
next
  case True
  with assms obtain msg where "users_table w = Failing msg"
    using not_fetch_ok by blast
  with True show ?thesis
    using try_block_users_fail by blast
qed

lemma handler_no_users:
  assumes "method req \<noteq> ''OPTIONS''" and "fetch_ok (reservations_table w)"
    and "users_table w = Rows [] \<or> users_table w = NullData"
  shows "handler w req = no_users_found"
  using assms(1) try_block_no_users [OF assms(2,3)] by (rule handler_returned)

lemma settled_status_fulfilled: "(settled_status r = ''fulfilled'') = (r = fulfilled)"
  by (cases r) (simp_all add: settled_status_def)

lemma settled_status_rejected: "(settled_status r = ''rejected'') = (r \<noteq> fulfilled)"
  by (cases r) (simp_all add: settled_status_def)

lemma length_settlements: "length (settlements w us) = length us"
  by (simp add: settlements_def enumerate_eq_zip)

lemma nth_settlements:
  assumes "i < length us"
  shows "settlements w us ! i
         = snd (sendEmail (email_service w i) (us ! i) (digest w) weekly)"
  using assms by (simp add: settlements_def nth_enumerate_eq)

lemma sendEmail_fulfilled:
  "(snd (sendEmail service user content weekly) = fulfilled)
   = (service (email user) weekly_subject content = None)"
  by (simp add: sendEmail_def Let_def split: option.split)

text \<open>The function as it stands in the source settles every send as fulfilled.\<close>

lemma sendEmail_no_service: "snd (sendEmail no_service user content type) = fulfilled"
  by (simp add: sendEmail_def no_service_def Let_def)

lemma filter_zip_snd:
  "length xs = length ys \<Longrightarrow>
   length (filter (\<lambda>a. P (snd a)) (zip xs ys)) = length (filter P ys)"
  by (induction xs ys rule: list_induct2) simp_all

lemma headers_of_handler:
  "headers (response (handler w req))
   = (if method req = ''OPTIONS'' then corsHeaders else json_headers)"
proof (cases "method req = ''OPTIONS''")
  case True
  then show ?thesis by (simp add: handler_preflight)
next
  case False
  have "case try_block w of Inl msg \<Rightarrow> True | Inr run \<Rightarrow> headers (response run) = json_headers"
    by (simp add: try_block_def Let_def split_def no_users_found_def
        split: option.split)
  with False show ?thesis
    by (simp add: handler_def split: sum.splits)
qed

lemma handler_reservations_fail:
  assumes "method req \<noteq> ''OPTIONS''" and "reservations_table w = Failing msg"
  shows "body (response (handler w req)) =
     Some (JObject [(''error'',
       JString (''Erreur r'' @ [CHR 0xC3, CHR 0xA9] @ ''cup'' @ [CHR 0xC3, CHR 0xA9]
                @ ''ration r'' @ [CHR 0xC3, CHR 0xA9] @ ''servations: '' @ msg))])"
  using assms(1) try_block_reservations_fail [OF assms(2)] by (simp add: handler_thrown)

lemma handler_users_fail:
  assumes "method req \<noteq> ''OPTIONS''" and "fetch_ok (reservations_table w)"
    and "users_table w = Failing msg"
  shows "body (response (handler w req)) =
     Some (JObject [(''error'',
       JString (''Erreur r'' @ [CHR 0xC3, CHR 0xA9] @ ''cup'' @ [CHR 0xC3, CHR 0xA9]
                @ ''ration utilisateurs: '' @ msg))])"
  using assms(1) try_block_users_fail [OF assms(2,3)] by (simp add: handler_thrown)

lemma handler_renders_query:
  assumes "method req \<noteq> ''OPTIONS''" and "reservations_table w = Rows table"
    and "users_table w = Rows us" and "us \<noteq> []"
  shows "rendered (handler w req) =
     Some (generateWeeklyEmailContent (toLocaleDateString w)
             (sort_key date_res
                (filter (\<lambda>r. startDate_of (now w) \<le> date_res r \<and> date_res r \<le> endDate_of (now w))
                   table))
             (startDate_of (now w)) (endDate_of (now w)))"
proof -
  have ok: "fetch_ok (reservations_table w)"
    using assms(2) by (simp add: fetch_ok_def)
  have "handler w req = (case try_block w of Inr run \<Rightarrow> run)"
    using assms(1) try_block_dispatch [OF ok assms(3,4)] by (simp add: handler_returned)
  then show ?thesis
    using assms(2) try_block_dispatch [OF ok assms(3,4)]
    by (simp add: digest_def queried_reservations_def data_select_reservations_Rows)
qed

subsection \<open>Runs of the handler\<close>

text \<open>
  C2. The claim: when both fetches succeed and the recipient list is empty, the job returns
  at once with a result reporting zero attempted, zero succeeded and zero failed, whatever
  the reservations of the week, and nothing is rendered or sent.

  The run does return at once, renders nothing and sends nothing, but the response it
  returns reports no counts: its body is the object with the single member \<^verbatim>\<open>message\<close>,
  \<^verbatim>\<open>Aucun utilisateur trouve\<close>, and has no \<^verbatim>\<open>success\<close>, \<^verbatim>\<open>failures\<close> or
  \<^verbatim>\<open>reservations\<close> member. The theorem states the claim so amended; the example after its
  witness shows a run whose body reports neither zero successes nor zero failures.
\<close>

theorem no_recipients_message_only:
  assumes "method req \<noteq> ''OPTIONS''"
    and "fetch_ok (reservations_table w)"
    and "users_table w = Rows []"
  shows "response (handler w req) =
           \<lparr>status = 200, headers = json_headers,
            body = Some (JObject
              [(''message'', JString (''Aucun utilisateur trouv'' @ [CHR 0xC3, CHR 0xA9]))])\<rparr>
         \<and> json_member ''success'' (body (response (handler w req))) = None
         \<and> json_member ''failures'' (body (response (handler w req))) = None
         \<and> json_member ''reservations'' (body (response (handler w req))) = None
         \<and> rendered (handler w req) = None
         \<and> attempts (handler w req) = []
         \<and> console (handler w req) = []"
proof -
  have "handler w req = no_users_found"
    using assms by (simp add: handler_no_users)
  then show ?thesis
    by (simp add: no_users_found_def json_member_def)
qed

theorem no_recipients_message_only_witness:
  "method post \<noteq> ''OPTIONS''
   \<and> fetch_ok (reservations_table (example_world\<lparr>users_table := Rows []\<rparr>))
   \<and> users_table (example_world\<lparr>users_table := Rows []\<rparr>) = Rows []
   \<and> response (handler (example_world\<lparr>users_table := Rows []\<rparr>) post) =
        \<lparr>status = 200, headers = json_headers,
         body = Some (JObject
           [(''message'', JString (''Aucun utilisateur trouv'' @ [CHR 0xC3, CHR 0xA9]))])\<rparr>
   \<and> rendered (handler (example_world\<lparr>users_table := Rows []\<rparr>) post) = None
   \<and> attempts (handler (example_world\<lparr>users_table := Rows []\<rparr>) post) = []"
proof -
  have h1: "method post \<noteq> ''OPTIONS''" by (simp add: post_def)
  have h2: "fetch_ok (reservations_table (example_world\<lparr>users_table := Rows []\<rparr>))"
    by (simp add: example_world_def fetch_ok_def)
  have h3: "users_table (example_world\<lparr>users_table := Rows []\<rparr>) = Rows []" by simp
  show ?thesis
    using no_recipients_message_only [OF h1 h2 h3] h1 h2 h3 by blast
qed

theorem no_recipients_reports_no_counts:
  "fetch_ok (reservations_table (example_world\<lparr>users_table := Rows []\<rparr>))
   \<and> fetch_ok (users_table (example_world\<lparr>users_table := Rows []\<rparr>))
   \<and> users_table (example_world\<lparr>users_table := Rows []\<rparr>) = Rows []
   \<and> json_member ''success''
        (body (response (handler (example_world\<lparr>users_table := Rows []\<rparr>) post))) = None
   \<and> json_member ''failures''
        (body (response (handler (example_world\<lparr>users_table := Rows []\<rparr>) post))) = None
   \<and> json_member ''success''
        (body (response (handler (example_world\<lparr>users_table := Rows []\<rparr>) post)))
       \<noteq> Some (JNumber 0)
   \<and> json_member ''failures''
        (body (response (handler (example_world\<lparr>users_table := Rows []\<rparr>) post)))
       \<noteq> Some (JNumber 0)"
proof -
  have h1: "method post \<noteq> ''OPTIONS''" by (simp add: post_def)
  have h2: "fetch_ok (reservations_table (example_world\<lparr>users_table := Rows []\<rparr>))"
    by (simp add: example_world_def fetch_ok_def)
  have "handler (example_world\<lparr>users_table := Rows []\<rparr>) post = no_users_found"
    using h1 h2 by (simp add: handler_no_users)
  then show ?thesis
    using h2 by (simp add: no_users_found_def json_member_def fetch_ok_def)
qed

text \<open>
  C3. When the query on the reservations or the query on the users returns an error, the
  run makes no call of \<open>sendEmail\<close> and renders no document, and the caller receives
  status 500 with the JSON headers and a body that is the object with the single member
  \<^verbatim>\<open>error\<close>, the message of the thrown error. (\<open>handler_reservations_fail\<close> and
  \<open>handler_users_fail\<close> give the message for each query.)
\<close>

theorem fetch_failure_aborts_run:
  assumes "method req \<noteq> ''OPTIONS''"
    and "\<not> (fetch_ok (reservations_table w) \<and> fetch_ok (users_table w))"
  shows "attempts (handler w req) = []
         \<and> rendered (handler w req) = None
         \<and> status (response (handler w req)) = 500
         \<and> headers (response (handler w req)) = json_headers
         \<and> (\<exists>msg. body (response (handler w req)) = Some (JObject [(''error'', JString msg)]))"
proof -
  obtain msg where "try_block w = Inl msg"
    using fetch_failure_thrown [OF assms(2)] by blast
  with assms(1) show ?thesis
    by (simp add: handler_thrown)
qed

theorem fetch_failure_aborts_run_witness:
  "method post \<noteq> ''OPTIONS''
   \<and> \<not> (fetch_ok (reservations_table
                 (example_world\<lparr>reservations_table := Failing ''connection refused''\<rparr>))
        \<and> fetch_ok (users_table
                 (example_world\<lparr>reservations_table := Failing ''connection refused''\<rparr>)))
   \<and> attempts (handler (example_world\<lparr>reservations_table := Failing ''connection refused''\<rparr>)
                 post) = []
   \<and> status (response
        (handler (example_world\<lparr>reservations_table := Failing ''connection refused''\<rparr>) post))
       = 500"
proof -
  have h1: "method post \<noteq> ''OPTIONS''" by (simp add: post_def)
  have h2: "\<not> (fetch_ok (reservations_table
                 (example_world\<lparr>reservations_table := Failing ''connection refused''\<rparr>))
        \<and> fetch_ok (users_table
                 (example_world\<lparr>reservations_table := Failing ''connection refused''\<rparr>)))"
    by (simp add: fetch_ok_def)
  show ?thesis
    using fetch_failure_aborts_run [OF h1 h2] h1 h2 by blast
qed

text \<open>
  C5. For a run with a non-empty list of recipients and any answers of the e-mail
  service: \<open>sendEmail\<close> is called once for every recipient, in the order of the list; the
  \<open>i\<close>-th call is fulfilled exactly when the service accepts the \<open>i\<close>-th send, whatever the
  other sends do; \<^verbatim>\<open>success\<close> counts the fulfilled calls, \<^verbatim>\<open>failures\<close> the rejected ones,
  and the two add up to the number of recipients.
\<close>

theorem every_recipient_attempted_and_tallied:
  assumes "method req \<noteq> ''OPTIONS''"
    and "fetch_ok (reservations_table w)"
    and "users_table w = Rows us"
    and "us \<noteq> []"
  shows "map fst (attempts (handler w req)) = us
         \<and> (\<forall>i<length us.
               (snd (attempts (handler w req) ! i) = fulfilled)
               = (email_service w i (email (us ! i)) weekly_subject (digest w) = None))
         \<and> (\<exists>s f.
               json_member ''success'' (body (response (handler w req))) = Some (JNumber (int s))
               \<and> json_member ''failures'' (body (response (handler w req)))
                   = Some (JNumber (int f))
               \<and> s = length (filter (\<lambda>a. snd a = fulfilled) (attempts (handler w req)))
               \<and> f = length (filter (\<lambda>a. snd a \<noteq> fulfilled) (attempts (handler w req)))
               \<and> s + f = length us)"
proof -
  let ?rs = "settlements w us"
  have run: "handler w req = (case try_block w of Inr run \<Rightarrow> run)"
    using assms(1) try_block_dispatch [OF assms(2-4)] by (simp add: handler_returned)
  have att: "attempts (handler w req) = zip us ?rs"
    and suc: "json_member ''success'' (body (response (handler w req)))
              = Some (JNumber (int (length (filter (\<lambda>r. r = fulfilled) ?rs))))"
    and fai: "json_member ''failures'' (body (response (handler w req)))
              = Some (JNumber (int (length (filter (\<lambda>r. r \<noteq> fulfilled) ?rs))))"
    unfolding run try_block_dispatch [OF assms(2-4)]
    by (simp_all add: json_member_def settled_status_fulfilled settled_status_rejected)
  have len: "length us = length ?rs" by (simp add: length_settlements)
  have 1: "map fst (attempts (handler w req)) = us"
    unfolding att using len by simp
  have 2: "(snd (attempts (handler w req) ! i) = fulfilled)
           = (email_service w i (email (us ! i)) weekly_subject (digest w) = None)"
    if "i < length us" for i
    unfolding att using that len
    by (simp add: nth_settlements sendEmail_fulfilled)
  have s: "length (filter (\<lambda>a. snd a = fulfilled) (attempts (handler w req)))
           = length (filter (\<lambda>r. r = fulfilled) ?rs)"
    unfolding att using len by (rule filter_zip_snd)
  have f: "length (filter (\<lambda>a. snd a \<noteq> fulfilled) (attempts (handler w req)))
           = length (filter (\<lambda>r. r \<noteq> fulfilled) ?rs)"
    unfolding att using len by (rule filter_zip_snd)
  have "length (filter (\<lambda>r. r = fulfilled) ?rs) + length (filter (\<lambda>r. r \<noteq> fulfilled) ?rs)
        = length us"
    unfolding len by (rule sum_length_filter_compl)
  with 1 2 suc fai s f show ?thesis by auto
qed

theorem every_recipient_attempted_and_tallied_witness:
  "method post \<noteq> ''OPTIONS''
   \<and> fetch_ok (reservations_table example_world)
   \<and> users_table example_world = Rows [gerant, assistant]
   \<and> [gerant, assistant] \<noteq> []
   \<and> map fst (attempts (handler example_world post)) = [gerant, assistant]
   \<and> snd (attempts (handler example_world post) ! 0) = fulfilled
   \<and> snd (attempts (handler example_world post) ! 1) \<noteq> fulfilled
   \<and> json_member ''success'' (body (response (handler example_world post))) = Some (JNumber 1)
   \<and> json_member ''failures'' (body (response (handler example_world post))) = Some (JNumber 1)"
proof -
  have h1: "method post \<noteq> ''OPTIONS''" by (simp add: post_def)
  have h2: "fetch_ok (reservations_table example_world)"
    by (simp add: example_world_def fetch_ok_def)
  have h3: "users_table example_world = Rows [gerant, assistant]"
    by (simp add: example_world_def)
  have h4: "[gerant, assistant] \<noteq> []" by simp
  note t = every_recipient_attempted_and_tallied [OF h1 h2 h3 h4]
  from t have m: "map fst (attempts (handler example_world post)) = [gerant, assistant]"
    by blast
  from t have o: "(snd (attempts (handler example_world post) ! i) = fulfilled)
      = (email_service example_world i (email ([gerant, assistant] ! i)) weekly_subject
           (digest example_world) = None)" if "i < 2" for i
    using that by simp
  have o0: "snd (attempts (handler example_world post) ! 0) = fulfilled"
    using o [of 0] by (simp add: example_world_def second_send_refused_def)
  have o1: "snd (attempts (handler example_world post) ! 1) \<noteq> fulfilled"
    using o [of 1] by (simp add: example_world_def second_send_refused_def)
  from m obtain a b where ab: "attempts (handler example_world post) = [a, b]"
    by (auto simp: map_eq_Cons_conv)
  from ab o0 o1 have
    "length (filter (\<lambda>a. snd a = fulfilled) (attempts (handler example_world post))) = 1"
    "length (filter (\<lambda>a. snd a \<noteq> fulfilled) (attempts (handler example_world post))) = 1"
    by simp_all
  with t have
    "json_member ''success'' (body (response (handler example_world post))) = Some (JNumber 1)"
    "json_member ''failures'' (body (response (handler example_world post))) = Some (JNumber 1)"
    by auto
  with h1 h2 h3 h4 m o0 o1 show ?thesis by blast
qed

subsection \<open>Rendering\<close>

lemma foldl_append_concat:
  "foldl (\<lambda>content x. content @ f x) content xs = content @ concat (map f xs)"
  by (induction xs arbitrary: content) simp_all

lemma generateWeeklyEmailContent_eq:
  "generateWeeklyEmailContent formatDate reservations startDate endDate =
     page_open @ formatDate startDate @ '' - '' @ formatDate endDate @ page_header_close
     @ (if reservations = [] then no_reservation_block
        else concat (map (reservation_entry formatDate) reservations))
     @ page_close"
  by (simp add: generateWeeklyEmailContent_def Let_def foldl_append_concat)

lemma newline_not_in_separator: "CHR 0x0A \<notin> set notes_separator"
  by (simp add: notes_separator_def)

lemma replace_newlines_Nil: "replace_newlines [] = []"
  by (simp add: replace_newlines_def)

lemma replace_newlines_Cons:
  "replace_newlines (c # cs) =
     (if c = CHR 0x0A then notes_separator @ replace_newlines cs else c # replace_newlines cs)"
  by (simp add: replace_newlines_def)

lemma no_newline_left: "CHR 0x0A \<notin> set (replace_newlines s)"
  using newline_not_in_separator
  by (induction s) (auto simp add: replace_newlines_Nil replace_newlines_Cons)

lemma lines_of_not_Nil: "lines_of s \<noteq> []"
  by (induction s) (auto split: list.split)

lemma join_with_Cons_line: "join_with sep ((c # l) # ls) = c # join_with sep (l # ls)"
  by (cases ls) simp_all

lemma join_with_empty_line: "ls \<noteq> [] \<Longrightarrow> join_with sep ([] # ls) = sep @ join_with sep ls"
  by (cases ls) simp_all

lemma replace_newlines_join: "replace_newlines s = join_with notes_separator (lines_of s)"
proof (induction s)
  case Nil
  show ?case by (simp add: replace_newlines_Nil)
next
  case (Cons c cs)
  show ?case
  proof (cases "c = CHR 0x0A")
    case True
    then show ?thesis
      using Cons lines_of_not_Nil [of cs]
      by (simp add: replace_newlines_Cons join_with_empty_line)
  next
    case False
    obtain l ls where "lines_of cs = l # ls"
      using lines_of_not_Nil [of cs] by (cases "lines_of cs") auto
    with False Cons show ?thesis
      by (simp add: replace_newlines_Cons join_with_Cons_line)
  qed
qed

lemma replace_newlines_unchanged: "CHR 0x0A \<notin> set s \<Longrightarrow> replace_newlines s = s"
  by (induction s) (auto simp add: replace_newlines_Nil replace_newlines_Cons)


lemma replace_newlines_explicit:
  "replace_newlines s =
     concat (map (\<lambda>c. if c = CHR 0x0A then '' '' @ [CHR 0xE2, CHR 0x80, CHR 0xA2] @ '' ''
                          else [c]) s)"
  unfolding replace_newlines_def notes_separator_def by (rule refl)


lemma reservation_entry_explicit:
  "reservation_entry formatDate r =
     ''\<newline>''
     @ ''        <div class='' @ [CHR 0x22] @ ''reservation'' @ [CHR 0x22] @ ''>\<newline>''
     @ ''          <div class='' @ [CHR 0x22] @ ''date'' @ [CHR 0x22] @ ''>''
       @ [CHR 0xF0, CHR 0x9F, CHR 0x93, CHR 0x85] @ '' '' @ formatDate (date_res r)
       @ ''</div>\<newline>''
     @ ''          <div class='' @ [CHR 0x22] @ ''details'' @ [CHR 0x22] @ ''>\<newline>''
     @ ''            <div class='' @ [CHR 0x22] @ ''horaire'' @ [CHR 0x22] @ ''>''
       @ [CHR 0xF0, CHR 0x9F, CHR 0x95, CHR 0x92] @ '' ''
       @ (if horaire r = ''nuit'' then ''Soir'' @ [CHR 0xC3, CHR 0xA9] @ ''e (20h30-01h00)''
          else ''Apr'' @ [CHR 0xC3, CHR 0xA8] @ ''s-midi (15h30-20h00)'')
       @ ''</div>\<newline>''
     @ ''            <div class='' @ [CHR 0x22] @ ''client'' @ [CHR 0x22] @ ''>''
       @ [CHR 0xF0, CHR 0x9F, CHR 0x91, CHR 0xA4] @ '' '' @ prenom r @ '' '' @ nom r
       @ ''</div>\<newline>''
     @ ''            ''
       @ (case notes r of
            None \<Rightarrow> []
          | Some s \<Rightarrow>
              if s = [] then []
              else ''<div class='' @ [CHR 0x22] @ ''notes'' @ [CHR 0x22] @ ''>''
                   @ [CHR 0xF0, CHR 0x9F, CHR 0x93, CHR 0x9D] @ '' ''
                   @ concat (map (\<lambda>c. if c = CHR 0x0A
                                        then '' '' @ [CHR 0xE2, CHR 0x80, CHR 0xA2] @ '' ''
                                        else [c]) s)
                   @ ''</div>'')
       @ ''\<newline>''
     @ ''          </div>\<newline>''
     @ ''        </div>\<newline>''
     @ ''      ''"
  by (simp add: reservation_entry_def entry_open_def entry_after_date_def
      entry_after_horaire_def entry_after_client_def entry_close_def notes_element_def
      notes_open_def notes_close_def replace_newlines_explicit dq_def
      formatHoraire_def split: option.split)


text \<open>Only the line feed is replaced: the carriage return of a CR LF pair stays.\<close>

lemma carriage_return_kept:
  "replace_newlines (''a'' @ [CHR 0x0D, CHR 0x0A] @ ''b'')
   = ''a'' @ [CHR 0x0D] @ '' '' @ [CHR 0xE2, CHR 0x80, CHR 0xA2] @ '' '' @ ''b''"
  by (simp add: replace_newlines_explicit)


lemma entry_has_date_element:
  "sublist (''<div class='' @ dq @ ''date'' @ dq @ ''>'') (reservation_entry formatDate r)"
proof -
  have "sublist (''<div class='' @ dq @ ''date'' @ dq @ ''>'') entry_open"
    by (simp add: entry_open_def dq_def sublist_Cons_right prefix_code)
  also have "sublist entry_open (reservation_entry formatDate r)"
    by (simp add: reservation_entry_def)
  finally show ?thesis .
qed

lemma no_date_element_in_message:
  "\<not> sublist (''<div class='' @ dq @ ''date'' @ dq @ ''>'') no_reservation_block"
  by (simp add: no_reservation_block_def dq_def sublist_Cons_right prefix_code)

lemma message_in_block:
  "sublist ([CHR 0xF0, CHR 0x9F, CHR 0x8E, CHR 0x89] @ '' Aucune r'' @ [CHR 0xC3, CHR 0xA9]
            @ ''servation pr'' @ [CHR 0xC3, CHR 0xA9] @ ''vue pour la semaine prochaine'')
     no_reservation_block"
  by (simp add: no_reservation_block_def dq_def sublist_Cons_right prefix_code)

text \<open>
  C6. For an empty list of reservations the document is the header with the two dates, the
  block of lines 166-172 and the footer. The block holds the message
  \<^verbatim>\<open>Aucune reservation prevue pour la semaine prochaine\<close> and no entry of any
  reservation.
\<close>

theorem empty_week_document:
  "generateWeeklyEmailContent formatDate [] startDate endDate
     = page_open @ formatDate startDate @ '' - '' @ formatDate endDate @ page_header_close
       @ no_reservation_block @ page_close
   \<and> sublist ([CHR 0xF0, CHR 0x9F, CHR 0x8E, CHR 0x89] @ '' Aucune r'' @ [CHR 0xC3, CHR 0xA9]
              @ ''servation pr'' @ [CHR 0xC3, CHR 0xA9] @ ''vue pour la semaine prochaine'')
       no_reservation_block
   \<and> \<not> sublist (reservation_entry formatDate r) no_reservation_block"
proof -
  have "\<not> sublist (reservation_entry formatDate r) no_reservation_block"
  proof
    assume "sublist (reservation_entry formatDate r) no_reservation_block"
    with entry_has_date_element [of formatDate r]
    have "sublist (''<div class='' @ dq @ ''date'' @ dq @ ''>'') no_reservation_block"
      by (rule sublist_order.order_trans)
    with no_date_element_in_message show False by contradiction
  qed
  then show ?thesis
    using message_in_block by (simp add: generateWeeklyEmailContent_eq)
qed

text \<open>
  C4. Let the query of lines 64-69 return a non-empty list for a table and a date range.
  The document rendered from it is the header, then for every reservation of the list, in
  the order of the list, one entry that shows that reservation's formatted date, the label
  of its time slot, its first and last name and its notes, then the footer; the entries are
  written out below as the bytes of lines 175-184. The list is in ascending order of
  \<open>date_res\<close>, every reservation of it lies in the closed range, and it holds each row of
  the table whose date lies in the range as often as the table does, and no other row.
  The first part holds for every non-empty list given to \<open>generateWeeklyEmailContent\<close>;
  the order and the range of the list are those of the store's query.
\<close>

theorem rendered_window_reservations:
  assumes "data (select_reservations (Rows table) startDate endDate) = Some reservations"
    and "reservations \<noteq> []"
  shows "generateWeeklyEmailContent formatDate reservations startDate endDate
           = page_open @ formatDate startDate @ '' - '' @ formatDate endDate @ page_header_close
             @ concat (map (\<lambda>r.
                 ''\<newline>''
                 @ ''        <div class='' @ [CHR 0x22] @ ''reservation'' @ [CHR 0x22] @ ''>\<newline>''
                 @ ''          <div class='' @ [CHR 0x22] @ ''date'' @ [CHR 0x22] @ ''>''
                   @ [CHR 0xF0, CHR 0x9F, CHR 0x93, CHR 0x85] @ '' '' @ formatDate (date_res r)
                   @ ''</div>\<newline>''
                 @ ''          <div class='' @ [CHR 0x22] @ ''details'' @ [CHR 0x22] @ ''>\<newline>''
                 @ ''            <div class='' @ [CHR 0x22] @ ''horaire'' @ [CHR 0x22] @ ''>''
                   @ [CHR 0xF0, CHR 0x9F, CHR 0x95, CHR 0x92] @ '' ''
                   @ (if horaire r = ''nuit'' then ''Soir'' @ [CHR 0xC3, CHR 0xA9] @ ''e (20h30-01h00)''
                      else ''Apr'' @ [CHR 0xC3, CHR 0xA8] @ ''s-midi (15h30-20h00)'')
                   @ ''</div>\<newline>''
                 @ ''            <div class='' @ [CHR 0x22] @ ''client'' @ [CHR 0x22] @ ''>''
                   @ [CHR 0xF0, CHR 0x9F, CHR 0x91, CHR 0xA4] @ '' '' @ prenom r @ '' '' @ nom r
                   @ ''</div>\<newline>''
                 @ ''            ''
                   @ (case notes r of
                        None \<Rightarrow> []
                      | Some s \<Rightarrow>
                          if s = [] then []
                          else ''<div class='' @ [CHR 0x22] @ ''notes'' @ [CHR 0x22] @ ''>'' @ [CHR 0xF0, CHR 0x9F, CHR 0x93, CHR 0x9D] @ '' ''
                               @ concat (map (\<lambda>c. if c = CHR 0x0A then '' '' @ [CHR 0xE2, CHR 0x80, CHR 0xA2] @ '' '' else [c]) s)
                               @ ''</div>'')
                   @ ''\<newline>''
                 @ ''          </div>\<newline>''
                 @ ''        </div>\<newline>''
                 @ ''      '') reservations)
             @ page_close
         \<and> sorted (map date_res reservations)
         \<and> (\<forall>r \<in> set reservations. startDate \<le> date_res r \<and> date_res r \<le> endDate)
         \<and> mset reservations
             = filter_mset (\<lambda>r. startDate \<le> date_res r \<and> date_res r \<le> endDate) (mset table)"
proof -
  have "reservations
        = sort_key date_res (filter (\<lambda>r. startDate \<le> date_res r \<and> date_res r \<le> endDate) table)"
    using assms(1) by (simp add: data_select_reservations_Rows)
  then have "sorted (map date_res reservations)"
    and "\<forall>r \<in> set reservations. startDate \<le> date_res r \<and> date_res r \<le> endDate"
    and "mset reservations
         = filter_mset (\<lambda>r. startDate \<le> date_res r \<and> date_res r \<le> endDate) (mset table)"
    by simp_all
  moreover have "generateWeeklyEmailContent formatDate reservations startDate endDate
           = page_open @ formatDate startDate @ '' - '' @ formatDate endDate @ page_header_close
             @ concat (map (reservation_entry formatDate) reservations) @ page_close"
    using assms(2) by (simp add: generateWeeklyEmailContent_eq)
  ultimately show ?thesis
    unfolding reservation_entry_explicit by blast
qed

theorem rendered_window_reservations_witness:
  "data (select_reservations (Rows [mariage, plus_tard, anniversaire]) ''2026-11-09'' ''2026-11-15'')
     = Some [anniversaire, mariage]
   \<and> [anniversaire, mariage] \<noteq> []
   \<and> generateWeeklyEmailContent (\<lambda>d. d) [anniversaire, mariage] ''2026-11-09'' ''2026-11-15''
       = page_open @ ''2026-11-09'' @ '' - '' @ ''2026-11-15'' @ page_header_close
         @ (''\<newline>''
            @ ''        <div class='' @ [CHR 0x22] @ ''reservation'' @ [CHR 0x22] @ ''>\<newline>''
            @ ''          <div class='' @ [CHR 0x22] @ ''date'' @ [CHR 0x22] @ ''>''
              @ [CHR 0xF0, CHR 0x9F, CHR 0x93, CHR 0x85] @ '' '' @ ''2026-11-10''
              @ ''</div>\<newline>''
            @ ''          <div class='' @ [CHR 0x22] @ ''details'' @ [CHR 0x22] @ ''>\<newline>''
            @ ''            <div class='' @ [CHR 0x22] @ ''horaire'' @ [CHR 0x22] @ ''>''
              @ [CHR 0xF0, CHR 0x9F, CHR 0x95, CHR 0x92] @ '' ''
              @ ''Soir'' @ [CHR 0xC3, CHR 0xA9] @ ''e (20h30-01h00)''
              @ ''</div>\<newline>''
            @ ''            <div class='' @ [CHR 0x22] @ ''client'' @ [CHR 0x22] @ ''>''
              @ [CHR 0xF0, CHR 0x9F, CHR 0x91, CHR 0xA4] @ '' '' @ ''Amine Trabelsi''
              @ ''</div>\<newline>''
            @ ''            ''
              @ ''<div class='' @ [CHR 0x22] @ ''notes'' @ [CHR 0x22] @ ''>'' @ [CHR 0xF0, CHR 0x9F, CHR 0x93, CHR 0x9D] @ '' '' @ ''gateau'' @ '' '' @ [CHR 0xE2, CHR 0x80, CHR 0xA2] @ '' '' @ ''80 invites'' @ ''</div>''
              @ ''\<newline>''
            @ ''          </div>\<newline>''
            @ ''        </div>\<newline>''
            @ ''      '')
         @ (''\<newline>''
            @ ''        <div class='' @ [CHR 0x22] @ ''reservation'' @ [CHR 0x22] @ ''>\<newline>''
            @ ''          <div class='' @ [CHR 0x22] @ ''date'' @ [CHR 0x22] @ ''>''
              @ [CHR 0xF0, CHR 0x9F, CHR 0x93, CHR 0x85] @ '' '' @ ''2026-11-14''
              @ ''</div>\<newline>''
            @ ''          <div class='' @ [CHR 0x22] @ ''details'' @ [CHR 0x22] @ ''>\<newline>''
            @ ''            <div class='' @ [CHR 0x22] @ ''horaire'' @ [CHR 0x22] @ ''>''
              @ [CHR 0xF0, CHR 0x9F, CHR 0x95, CHR 0x92] @ '' ''
              @ ''Apr'' @ [CHR 0xC3, CHR 0xA8] @ ''s-midi (15h30-20h00)''
              @ ''</div>\<newline>''
            @ ''            <div class='' @ [CHR 0x22] @ ''client'' @ [CHR 0x22] @ ''>''
              @ [CHR 0xF0, CHR 0x9F, CHR 0x91, CHR 0xA4] @ '' '' @ ''Ines Ben Salah''
              @ ''</div>\<newline>''
            @ ''            ''
              @ []
              @ ''\<newline>''
            @ ''          </div>\<newline>''
            @ ''        </div>\<newline>''
            @ ''      '')
         @ page_close
   \<and> sorted (map date_res [anniversaire, mariage])
   \<and> mset [anniversaire, mariage]
       = filter_mset (\<lambda>r. ''2026-11-09'' \<le> date_res r \<and> date_res r \<le> ''2026-11-15'')
           (mset [mariage, plus_tard, anniversaire])"
proof -
  have h1: "data (select_reservations (Rows [mariage, plus_tard, anniversaire])
                    ''2026-11-09'' ''2026-11-15'') = Some [anniversaire, mariage]"
    by (simp add: select_reservations_def mariage_def plus_tard_def anniversaire_def)
  have h2: "[anniversaire, mariage] \<noteq> []" by simp
  note t = rendered_window_reservations [OF h1 h2, of "\<lambda>d. d"]
  from t have doc:
    "generateWeeklyEmailContent (\<lambda>d. d) [anniversaire, mariage] ''2026-11-09'' ''2026-11-15''
       = page_open @ ''2026-11-09'' @ '' - '' @ ''2026-11-15'' @ page_header_close
         @ (''\<newline>''
            @ ''        <div class='' @ [CHR 0x22] @ ''reservation'' @ [CHR 0x22] @ ''>\<newline>''
            @ ''          <div class='' @ [CHR 0x22] @ ''date'' @ [CHR 0x22] @ ''>''
              @ [CHR 0xF0, CHR 0x9F, CHR 0x93, CHR 0x85] @ '' '' @ ''2026-11-10''
              @ ''</div>\<newline>''
            @ ''          <div class='' @ [CHR 0x22] @ ''details'' @ [CHR 0x22] @ ''>\<newline>''
            @ ''            <div class='' @ [CHR 0x22] @ ''horaire'' @ [CHR 0x22] @ ''>''
              @ [CHR 0xF0, CHR 0x9F, CHR 0x95, CHR 0x92] @ '' ''
              @ ''Soir'' @ [CHR 0xC3, CHR 0xA9] @ ''e (20h30-01h00)''
              @ ''</div>\<newline>''
            @ ''            <div class='' @ [CHR 0x22] @ ''client'' @ [CHR 0x22] @ ''>''
              @ [CHR 0xF0, CHR 0x9F, CHR 0x91, CHR 0xA4] @ '' '' @ ''Amine Trabelsi''
              @ ''</div>\<newline>''
            @ ''            ''
              @ ''<div class='' @ [CHR 0x22] @ ''notes'' @ [CHR 0x22] @ ''>'' @ [CHR 0xF0, CHR 0x9F, CHR 0x93, CHR 0x9D] @ '' '' @ ''gateau'' @ '' '' @ [CHR 0xE2, CHR 0x80, CHR 0xA2] @ '' '' @ ''80 invites'' @ ''</div>''
              @ ''\<newline>''
            @ ''          </div>\<newline>''
            @ ''        </div>\<newline>''
            @ ''      '')
         @ (''\<newline>''
            @ ''        <div class='' @ [CHR 0x22] @ ''reservation'' @ [CHR 0x22] @ ''>\<newline>''
            @ ''          <div class='' @ [CHR 0x22] @ ''date'' @ [CHR 0x22] @ ''>''
              @ [CHR 0xF0, CHR 0x9F, CHR 0x93, CHR 0x85] @ '' '' @ ''2026-11-14''
              @ ''</div>\<newline>''
            @ ''          <div class='' @ [CHR 0x22] @ ''details'' @ [CHR 0x22] @ ''>\<newline>''
            @ ''            <div class='' @ [CHR 0x22] @ ''horaire'' @ [CHR 0x22] @ ''>''
              @ [CHR 0xF0, CHR 0x9F, CHR 0x95, CHR 0x92] @ '' ''
              @ ''Apr'' @ [CHR 0xC3, CHR 0xA8] @ ''s-midi (15h30-20h00)''
              @ ''</div>\<newline>''
            @ ''            <div class='' @ [CHR 0x22] @ ''client'' @ [CHR 0x22] @ ''>''
              @ [CHR 0xF0, CHR 0x9F, CHR 0x91, CHR 0xA4] @ '' '' @ ''Ines Ben Salah''
              @ ''</div>\<newline>''
            @ ''            ''
              @ []
              @ ''\<newline>''
            @ ''          </div>\<newline>''
            @ ''        </div>\<newline>''
            @ ''      '')
         @ page_close"
    by (simp add: anniversaire_def mariage_def)
  from t have rest: "sorted (map date_res [anniversaire, mariage])"
    "mset [anniversaire, mariage]
       = filter_mset (\<lambda>r. ''2026-11-09'' \<le> date_res r \<and> date_res r \<le> ''2026-11-15'')
           (mset [mariage, plus_tard, anniversaire])"
    by blast+
  from h1 h2 doc rest show ?thesis by blast
qed

text \<open>
  C7. The entry of a reservation is the text of lines 175-184, written out below: it shows,
  in this order, the formatted date, the label of the time slot (\<^verbatim>\<open>Soiree (20h30-01h00)\<close>
  for \<^verbatim>\<open>nuit\<close>, \<^verbatim>\<open>Apres-midi (15h30-20h00)\<close> otherwise, each with its accent), the first name
  and the last name separated by a space, and the notes element. With notes that are not
  empty the element holds the notes with every line feed replaced by the separator
  \<^verbatim>\<open> \<bullet> \<close> (space, U+2022, space), which is the lines of the notes joined by the separator,
  and no line feed is left; with notes that are null or empty there is no element at all.
  A line break is the line feed that \<^verbatim>\<open>/\n/g\<close> matches: every other character, a carriage
  return included, is kept as it is.
\<close>

theorem reservation_entry_fields:
  "reservation_entry formatDate r
     = ''\<newline>''
       @ ''        <div class='' @ [CHR 0x22] @ ''reservation'' @ [CHR 0x22] @ ''>\<newline>''
       @ ''          <div class='' @ [CHR 0x22] @ ''date'' @ [CHR 0x22] @ ''>''
         @ [CHR 0xF0, CHR 0x9F, CHR 0x93, CHR 0x85] @ '' '' @ formatDate (date_res r)
         @ ''</div>\<newline>''
       @ ''          <div class='' @ [CHR 0x22] @ ''details'' @ [CHR 0x22] @ ''>\<newline>''
       @ ''            <div class='' @ [CHR 0x22] @ ''horaire'' @ [CHR 0x22] @ ''>''
         @ [CHR 0xF0, CHR 0x9F, CHR 0x95, CHR 0x92] @ '' ''
         @ (if horaire r = ''nuit'' then ''Soir'' @ [CHR 0xC3, CHR 0xA9] @ ''e (20h30-01h00)''
            else ''Apr'' @ [CHR 0xC3, CHR 0xA8] @ ''s-midi (15h30-20h00)'')
         @ ''</div>\<newline>''
       @ ''            <div class='' @ [CHR 0x22] @ ''client'' @ [CHR 0x22] @ ''>''
         @ [CHR 0xF0, CHR 0x9F, CHR 0x91, CHR 0xA4] @ '' '' @ prenom r @ '' '' @ nom r
         @ ''</div>\<newline>''
       @ ''            ''
         @ (case notes r of
              None \<Rightarrow> []
            | Some s \<Rightarrow>
                if s = [] then []
                else ''<div class='' @ [CHR 0x22] @ ''notes'' @ [CHR 0x22] @ ''>'' @ [CHR 0xF0, CHR 0x9F, CHR 0x93, CHR 0x9D] @ '' ''
                     @ concat (map (\<lambda>c. if c = CHR 0x0A then '' '' @ [CHR 0xE2, CHR 0x80, CHR 0xA2] @ '' '' else [c]) s)
                     @ ''</div>'')
         @ ''\<newline>''
       @ ''          </div>\<newline>''
       @ ''        </div>\<newline>''
       @ ''      ''
   \<and> (notes r = Some s \<and> s \<noteq> [] \<longrightarrow>
        concat (map (\<lambda>c. if c = CHR 0x0A then '' '' @ [CHR 0xE2, CHR 0x80, CHR 0xA2] @ '' '' else [c]) s)
          = join_with ('' '' @ [CHR 0xE2, CHR 0x80, CHR 0xA2] @ '' '') (lines_of s)
        \<and> CHR 0x0A \<notin> set (concat (map (\<lambda>c. if c = CHR 0x0A then '' '' @ [CHR 0xE2, CHR 0x80, CHR 0xA2] @ '' '' else [c]) s))
        \<and> notes_element (notes r)
            = ''<div class='' @ [CHR 0x22] @ ''notes'' @ [CHR 0x22] @ ''>'' @ [CHR 0xF0, CHR 0x9F, CHR 0x93, CHR 0x9D] @ '' ''
              @ join_with ('' '' @ [CHR 0xE2, CHR 0x80, CHR 0xA2] @ '' '') (lines_of s) @ ''</div>''
        \<and> CHR 0x0A \<notin> set (notes_element (notes r)))
   \<and> (notes r = None \<or> notes r = Some [] \<longrightarrow> notes_element (notes r) = [])"
proof -
  have 1: "CHR 0x0A \<notin> set (replace_newlines s)"
    by (rule no_newline_left)
  have 2: "CHR 0x0A \<notin> set (notes_open @ replace_newlines s @ notes_close)"
    using 1 by (simp add: notes_open_def notes_close_def dq_def)
  have 3: "replace_newlines s = join_with ('' '' @ [CHR 0xE2, CHR 0x80, CHR 0xA2] @ '' '') (lines_of s)"
    using replace_newlines_join [of s] by (simp add: notes_separator_def)
  have 4: "notes_open = ''<div class='' @ [CHR 0x22] @ ''notes'' @ [CHR 0x22] @ ''>'' @ [CHR 0xF0, CHR 0x9F, CHR 0x93, CHR 0x9D] @ '' ''"
    by (simp add: notes_open_def dq_def)
  have "notes r = Some s \<and> s \<noteq> [] \<longrightarrow>
        replace_newlines s = join_with ('' '' @ [CHR 0xE2, CHR 0x80, CHR 0xA2] @ '' '') (lines_of s)
        \<and> CHR 0x0A \<notin> set (replace_newlines s)
        \<and> notes_element (notes r)
            = ''<div class='' @ [CHR 0x22] @ ''notes'' @ [CHR 0x22] @ ''>'' @ [CHR 0xF0, CHR 0x9F, CHR 0x93, CHR 0x9D] @ '' ''
              @ join_with ('' '' @ [CHR 0xE2, CHR 0x80, CHR 0xA2] @ '' '') (lines_of s) @ ''</div>''
        \<and> CHR 0x0A \<notin> set (notes_element (notes r))"
    using 1 2 3 4 by (auto simp add: notes_element_def notes_close_def)
  moreover have "notes r = None \<or> notes r = Some [] \<longrightarrow> notes_element (notes r) = []"
    by (auto simp add: notes_element_def)
  moreover note reservation_entry_explicit [of formatDate r]
  ultimately show ?thesis
    unfolding replace_newlines_explicit [symmetric] by blast
qed

theorem reservation_entry_fields_witness:
  "notes anniversaire = Some (''gateau'' @ [CHR 0x0A] @ ''80 invites'')
   \<and> ''gateau'' @ [CHR 0x0A] @ ''80 invites'' \<noteq> []
   \<and> reservation_entry (\<lambda>d. d) anniversaire
       = ''\<newline>''
         @ ''        <div class='' @ [CHR 0x22] @ ''reservation'' @ [CHR 0x22] @ ''>\<newline>''
         @ ''          <div class='' @ [CHR 0x22] @ ''date'' @ [CHR 0x22] @ ''>''
           @ [CHR 0xF0, CHR 0x9F, CHR 0x93, CHR 0x85] @ '' '' @ ''2026-11-10''
           @ ''</div>\<newline>''
         @ ''          <div class='' @ [CHR 0x22] @ ''details'' @ [CHR 0x22] @ ''>\<newline>''
         @ ''            <div class='' @ [CHR 0x22] @ ''horaire'' @ [CHR 0x22] @ ''>''
           @ [CHR 0xF0, CHR 0x9F, CHR 0x95, CHR 0x92] @ '' ''
           @ ''Soir'' @ [CHR 0xC3, CHR 0xA9] @ ''e (20h30-01h00)''
           @ ''</div>\<newline>''
         @ ''            <div class='' @ [CHR 0x22] @ ''client'' @ [CHR 0x22] @ ''>''
           @ [CHR 0xF0, CHR 0x9F, CHR 0x91, CHR 0xA4] @ '' '' @ ''Amine Trabelsi''
           @ ''</div>\<newline>''
         @ ''            ''
           @ ''<div class='' @ [CHR 0x22] @ ''notes'' @ [CHR 0x22] @ ''>'' @ [CHR 0xF0, CHR 0x9F, CHR 0x93, CHR 0x9D] @ '' '' @ ''gateau'' @ '' '' @ [CHR 0xE2, CHR 0x80, CHR 0xA2] @ '' '' @ ''80 invites'' @ ''</div>''
           @ ''\<newline>''
         @ ''          </div>\<newline>''
         @ ''        </div>\<newline>''
         @ ''      ''
   \<and> notes mariage = None
   \<and> reservation_entry (\<lambda>d. d) mariage
       = ''\<newline>''
         @ ''        <div class='' @ [CHR 0x22] @ ''reservation'' @ [CHR 0x22] @ ''>\<newline>''
         @ ''          <div class='' @ [CHR 0x22] @ ''date'' @ [CHR 0x22] @ ''>''
           @ [CHR 0xF0, CHR 0x9F, CHR 0x93, CHR 0x85] @ '' '' @ ''2026-11-14''
           @ ''</div>\<newline>''
         @ ''          <div class='' @ [CHR 0x22] @ ''details'' @ [CHR 0x22] @ ''>\<newline>''
         @ ''            <div class='' @ [CHR 0x22] @ ''horaire'' @ [CHR 0x22] @ ''>''
           @ [CHR 0xF0, CHR 0x9F, CHR 0x95, CHR 0x92] @ '' ''
           @ ''Apr'' @ [CHR 0xC3, CHR 0xA8] @ ''s-midi (15h30-20h00)''
           @ ''</div>\<newline>''
         @ ''            <div class='' @ [CHR 0x22] @ ''client'' @ [CHR 0x22] @ ''>''
           @ [CHR 0xF0, CHR 0x9F, CHR 0x91, CHR 0xA4] @ '' '' @ ''Ines Ben Salah''
           @ ''</div>\<newline>''
         @ ''            ''
           @ []
           @ ''\<newline>''
         @ ''          </div>\<newline>''
         @ ''        </div>\<newline>''
         @ ''      ''"
proof -
  have h1: "notes anniversaire = Some (''gateau'' @ [CHR 0x0A] @ ''80 invites'')"
    by (simp add: anniversaire_def)
  have h2: "''gateau'' @ [CHR 0x0A] @ ''80 invites'' \<noteq> []" by simp
  have h3: "notes mariage = None" by (simp add: mariage_def)
  have a: "reservation_entry (\<lambda>d. d) anniversaire
       = ''\<newline>''
         @ ''        <div class='' @ [CHR 0x22] @ ''reservation'' @ [CHR 0x22] @ ''>\<newline>''
         @ ''          <div class='' @ [CHR 0x22] @ ''date'' @ [CHR 0x22] @ ''>''
           @ [CHR 0xF0, CHR 0x9F, CHR 0x93, CHR 0x85] @ '' '' @ ''2026-11-10''
           @ ''</div>\<newline>''
         @ ''          <div class='' @ [CHR 0x22] @ ''details'' @ [CHR 0x22] @ ''>\<newline>''
         @ ''            <div class='' @ [CHR 0x22] @ ''horaire'' @ [CHR 0x22] @ ''>''
           @ [CHR 0xF0, CHR 0x9F, CHR 0x95, CHR 0x92] @ '' ''
           @ ''Soir'' @ [CHR 0xC3, CHR 0xA9] @ ''e (20h30-01h00)''
           @ ''</div>\<newline>''
         @ ''            <div class='' @ [CHR 0x22] @ ''client'' @ [CHR 0x22] @ ''>''
           @ [CHR 0xF0, CHR 0x9F, CHR 0x91, CHR 0xA4] @ '' '' @ ''Amine Trabelsi''
           @ ''</div>\<newline>''
         @ ''            ''
           @ ''<div class='' @ [CHR 0x22] @ ''notes'' @ [CHR 0x22] @ ''>'' @ [CHR 0xF0, CHR 0x9F, CHR 0x93, CHR 0x9D] @ '' '' @ ''gateau'' @ '' '' @ [CHR 0xE2, CHR 0x80, CHR 0xA2] @ '' '' @ ''80 invites'' @ ''</div>''
           @ ''\<newline>''
         @ ''          </div>\<newline>''
         @ ''        </div>\<newline>''
         @ ''      ''"
    using reservation_entry_fields [of "\<lambda>d. d" anniversaire
        "''gateau'' @ [CHR 0x0A] @ ''80 invites''"]
    by (simp add: anniversaire_def)
  have m: "reservation_entry (\<lambda>d. d) mariage
       = ''\<newline>''
         @ ''        <div class='' @ [CHR 0x22] @ ''reservation'' @ [CHR 0x22] @ ''>\<newline>''
         @ ''          <div class='' @ [CHR 0x22] @ ''date'' @ [CHR 0x22] @ ''>''
           @ [CHR 0xF0, CHR 0x9F, CHR 0x93, CHR 0x85] @ '' '' @ ''2026-11-14''
           @ ''</div>\<newline>''
         @ ''          <div class='' @ [CHR 0x22] @ ''details'' @ [CHR 0x22] @ ''>\<newline>''
         @ ''            <div class='' @ [CHR 0x22] @ ''horaire'' @ [CHR 0x22] @ ''>''
           @ [CHR 0xF0, CHR 0x9F, CHR 0x95, CHR 0x92] @ '' ''
           @ ''Apr'' @ [CHR 0xC3, CHR 0xA8] @ ''s-midi (15h30-20h00)''
           @ ''</div>\<newline>''
         @ ''            <div class='' @ [CHR 0x22] @ ''client'' @ [CHR 0x22] @ ''>''
           @ [CHR 0xF0, CHR 0x9F, CHR 0x91, CHR 0xA4] @ '' '' @ ''Ines Ben Salah''
           @ ''</div>\<newline>''
         @ ''            ''
           @ []
           @ ''\<newline>''
         @ ''          </div>\<newline>''
         @ ''        </div>\<newline>''
         @ ''      ''"
    using reservation_entry_fields [of "\<lambda>d. d" mariage "[]"]
    by (simp add: mariage_def)
  from h1 h2 h3 a m show ?thesis by blast
qed

text \<open>
  C9. The label is \<^verbatim>\<open>Soiree (20h30-01h00)\<close> exactly when the time slot is the string
  \<^verbatim>\<open>nuit\<close>; for every other string, whether or not it names a time slot, it is
  \<^verbatim>\<open>Apres-midi (15h30-20h00)\<close>.
\<close>

theorem formatHoraire_evening_iff_nuit:
  "(formatHoraire h = ''Soir'' @ [CHR 0xC3, CHR 0xA9] @ ''e (20h30-01h00)'') = (h = ''nuit'')
   \<and> (formatHoraire h = ''Apr'' @ [CHR 0xC3, CHR 0xA8] @ ''s-midi (15h30-20h00)'') = (h \<noteq> ''nuit'')"
  by (simp add: formatHoraire_def)

subsection \<open>Responses\<close>

lemma distinct_json_headers: "distinct (map fst json_headers)" "distinct (map fst corsHeaders)"
  by (simp_all add: json_headers_def corsHeaders_def)

text \<open>
  C8. Every response of the handler, whatever the request and the world, carries
  \<^verbatim>\<open>Access-Control-Allow-Origin: *\<close>,
  \<^verbatim>\<open>Access-Control-Allow-Methods: GET, POST, PUT, DELETE, OPTIONS\<close> and
  \<^verbatim>\<open>Access-Control-Allow-Headers: Content-Type, Authorization\<close>, each name once; the
  response to \<^verbatim>\<open>OPTIONS\<close> has status 200 and no body.
\<close>

theorem cors_headers_on_every_response:
  "map_of (headers (response (handler w req))) ''Access-Control-Allow-Origin'' = Some ''*''
   \<and> map_of (headers (response (handler w req))) ''Access-Control-Allow-Methods''
       = Some ''GET, POST, PUT, DELETE, OPTIONS''
   \<and> map_of (headers (response (handler w req))) ''Access-Control-Allow-Headers''
       = Some ''Content-Type, Authorization''
   \<and> set corsHeaders \<subseteq> set (headers (response (handler w req)))
   \<and> distinct (map fst (headers (response (handler w req))))
   \<and> (method req = ''OPTIONS'' \<longrightarrow>
        status (response (handler w req)) = 200 \<and> body (response (handler w req)) = None)"
  by (simp add: headers_of_handler handler_preflight json_headers_def corsHeaders_def)

theorem cors_headers_on_every_response_witness:
  "method preflight = ''OPTIONS''
   \<and> status (response (handler example_world preflight)) = 200
   \<and> body (response (handler example_world preflight)) = None
   \<and> map_of (headers (response (handler example_world preflight)))
        ''Access-Control-Allow-Origin'' = Some ''*''
   \<and> map_of (headers (response (handler example_world post)))
        ''Access-Control-Allow-Origin'' = Some ''*''
   \<and> map_of (headers (response (handler example_world post)))
        ''Access-Control-Allow-Methods'' = Some ''GET, POST, PUT, DELETE, OPTIONS''
   \<and> map_of (headers (response (handler example_world post)))
        ''Access-Control-Allow-Headers'' = Some ''Content-Type, Authorization''"
proof -
  have h: "method preflight = ''OPTIONS''" by (simp add: preflight_def)
  show ?thesis
    using cors_headers_on_every_response [of example_world preflight]
      cors_headers_on_every_response [of example_world post] h
    by blast
qed




end
